theory Spec2Isabelle
  imports Main
begin

section \<open>Data model\<close>

text \<open>
  Timestamps (Go \<open>time.Time\<close>) are abstract instants, ordered as the natural numbers;
  the zero value of \<open>time.Time\<close> is \<open>0\<close>. A nullable column (\<open>null.String\<close>,
  \<open>null.Time\<close>) is an \<open>option\<close>: \<open>None\<close> is the null value (\<open>Valid = false\<close>),
  \<open>null.StringFrom s\<close> is \<open>Some s\<close>, and \<open>Ptr()\<close> of a null value is the nil pointer.
\<close>

type_synonym timestamp = nat

text \<open>
  Modelled from the spec: the struct \<open>models.Tenant\<close> (package \<open>internal/models\<close>) is
  declared outside the files at hand. Its fields are those of the Tenant entity of the
  data model: id, name, description, parent_tenant_id, created_at, updated_at, deleted_at.
\<close>

record Tenant =
  ID :: string
  Name :: string
  Description :: "string option"
  ParentTenantID :: "string option"
  CreatedAt :: timestamp
  UpdatedAt :: timestamp
  DeletedAt :: "timestamp option"

text \<open>
  The outward representation \<open>tenant\<close> built by \<open>v1Tenant\<close>:
  \<open>{id, name, parentTenantId?, createdAt, updatedAt, deletedAt?}\<close>. The two pointer
  fields are omitted from the representation exactly when they are \<open>None\<close>.
\<close>

record tenant =
  tenant_ID :: string
  tenant_Name :: string
  tenant_ParentTenantID :: "string option"
  tenant_CreatedAt :: timestamp
  tenant_UpdatedAt :: timestamp
  tenant_DeletedAt :: "timestamp option"

datatype panic = NilPointerDereference

text \<open>
  \<open>v1Tenant\<close> takes a pointer \<open>*models.Tenant\<close>; reading a field through the nil pointer
  panics.
\<close>

definition v1Tenant :: "Tenant option \<Rightarrow> panic + tenant" where
  "v1Tenant p =
     (case p of
        None \<Rightarrow> Inl NilPointerDereference
      | Some t \<Rightarrow>
          Inr \<lparr> tenant_ID = ID t,
                tenant_Name = Name t,
                tenant_ParentTenantID = ParentTenantID t,
                tenant_CreatedAt = CreatedAt t,
                tenant_UpdatedAt = UpdatedAt t,
                tenant_DeletedAt = DeletedAt t \<rparr>)"

text \<open>
  \<open>v1TenantSlice\<close>: \<open>tenants := make(tenantSlice, len(ts))\<close> is a slice of \<open>len(ts)\<close> nil
  pointers; the loop \<open>for i, t := range ts { tenants[i] = v1Tenant(t) }\<close> stores at
  index \<open>i\<close>. The loop function carries the index and the slice being filled.
\<close>

fun v1TenantSlice_loop ::
  "nat \<Rightarrow> Tenant option list \<Rightarrow> tenant option list \<Rightarrow> panic + tenant option list" where
  "v1TenantSlice_loop i [] tenants = Inr tenants"
| "v1TenantSlice_loop i (t # ts) tenants =
     (case v1Tenant t of
        Inl e \<Rightarrow> Inl e
      | Inr x \<Rightarrow> v1TenantSlice_loop (Suc i) ts (tenants[i := Some x]))"

definition v1TenantSlice :: "Tenant option list \<Rightarrow> panic + tenant option list" where
  "v1TenantSlice ts = v1TenantSlice_loop 0 ts (replicate (length ts) None)"

section \<open>The collaborators of the handlers\<close>

text \<open>
  Go errors. \<open>ErrUUIDNotFound\<close> and \<open>sql.ErrNoRows\<close> are the two sentinel errors the
  handlers test with \<open>errors.Is\<close>; the other constructors stand for the failures of the
  collaborators (validation, referential integrity, anything else).
\<close>

datatype error =
    ErrUUIDNotFound
  | ErrNoRows
  | ErrValidation
  | ErrConstraintViolation
  | ErrOther string

record createTenantRequest =
  createTenantRequest_Name :: string

text \<open>
  \<open>updateTenantRequest.Name\<close> is a \<open>*string\<close>: \<open>None\<close> is the nil pointer.
\<close>

record updateTenantRequest =
  updateTenantRequest_Name :: "string option"

text \<open>
  Modelled from the spec: the type \<open>pagination\<close> and \<open>parsePagination\<close> are declared
  outside the files at hand; the spec asks for offset/limit pagination.
\<close>

record pagination =
  limit :: nat
  offset :: nat

text \<open>
  The query modifiers the handlers build: the \<open>models.TenantWhere\<close> helpers they call,
  and the limit and offset modifiers of the pagination.
\<close>

datatype QueryMod =
    TenantWhere_ID_EQ string
  | TenantWhere_ParentTenantID_EQ "string option"
  | TenantWhere_ParentTenantID_IsNull
  | Limit nat
  | Offset nat

text \<open>
  Modelled from the spec: the message type and the URN constructor of \<open>internal/pubsub\<close>
  are declared outside the files at hand. A message carries
  \<open>{actor, resourceURN, additionalURNs?}\<close> and a URN is \<open>urn:infratographer:tenant:<id>\<close>.
\<close>

record Message =
  actor :: string
  resourceURN :: string
  additionalURNs :: "string list"

text \<open>
  Modelled from the spec: \<open>pubsub.NewTenantURN\<close>, declared outside the files at
  hand; the URN of a tenant is \<open>urn:infratographer:tenant:\<close> followed by its id.
\<close>

definition NewTenantURN :: "string \<Rightarrow> string" where
  "NewTenantURN i = ''urn:infratographer:tenant:'' @ i"

datatype event_kind = Created | Updated | Deleted

text \<open>
  One submission to the event publisher: which of \<open>PublishCreate\<close>, \<open>PublishUpdate\<close>,
  \<open>PublishDelete\<close> was called, with which topic, scope and message pointer
  (\<open>None\<close> is the nil message a failed constructor returns).
\<close>

record publish_call =
  kind :: event_kind
  topic :: string
  scope :: string
  msg :: "Message option"

text \<open>
  What a handler reads from its \<open>echo.Context\<close>: the result of \<open>parseUUID(c, "id")\<close>
  (a string and an error), the results of \<open>c.Bind\<close> for the two request bodies, the
  acting identity \<open>jwtauth.Actor(c)\<close> and the result of \<open>parsePagination(c)\<close>.
  \<open>tenantCreate\<close> binds into the struct it allocated. \<open>tenantUpdate\<close> binds with
  \<open>c.Bind(&payload)\<close>, through a pointer to the pointer \<open>payload\<close>: a body that is
  the JSON value \<open>null\<close> binds without error and leaves \<open>payload\<close> nil (\<open>None\<close>).
\<close>

record Context =
  parseUUID :: "string \<times> error option"
  Bind_createTenantRequest :: "error + createTenantRequest"
  Bind_updateTenantRequest :: "error + updateTenantRequest option"
  Actor :: string
  parsePagination :: pagination

text \<open>
  The collaborators a handler calls, as parameters: the \<open>validate\<close> methods of the
  request bodies (that of the update request is called on the pointer \<open>payload\<close>,
  which may be nil), \<open>pagination.queryMods\<close>, the persistence operations of
  \<open>internal/models\<close> over a database of type \<open>'db\<close> (\<open>Insert\<close>, \<open>Update\<close> and
  \<open>Delete\<close> return the error, the tenant struct as they leave it, and the database),
  the message constructors of \<open>internal/pubsub\<close> (a message pointer and an error) and
  the outcome of the publisher for a submission.
\<close>

record 'db Router =
  validate_create :: "createTenantRequest \<Rightarrow> error option"
  validate_update :: "updateTenantRequest option \<Rightarrow> error option"
  queryMods :: "pagination \<Rightarrow> QueryMod list"
  Insert :: "Tenant \<Rightarrow> 'db \<Rightarrow> error option \<times> Tenant \<times> 'db"
  One :: "QueryMod list \<Rightarrow> 'db \<Rightarrow> error + Tenant"
  All :: "QueryMod list \<Rightarrow> 'db \<Rightarrow> error + Tenant list"
  Update :: "Tenant \<Rightarrow> 'db \<Rightarrow> error option \<times> Tenant \<times> 'db"
  Delete :: "Tenant \<Rightarrow> bool \<Rightarrow> 'db \<Rightarrow> error option \<times> Tenant \<times> 'db"
  NewTenantMessage :: "string \<Rightarrow> string \<Rightarrow> string list \<Rightarrow> Message option \<times> error option"
  UpdateTenantMessage :: "string \<Rightarrow> string \<Rightarrow> Message option \<times> error option"
  DeleteTenantMessage :: "string \<Rightarrow> string \<Rightarrow> Message option \<times> error option"
  Publish :: "publish_call \<Rightarrow> error option"

text \<open>
  The state a handler changes: the database, the error log of \<open>r.logger\<close> (message and
  error of each \<open>Error\<close> call) and the submissions made to the event publisher.
\<close>

record 'db World =
  db :: 'db
  logged :: "(string \<times> error) list"
  published :: "publish_call list"

text \<open>
  How a handler ends: with the response helper it called, with its arguments; with the
  plain \<open>return err\<close> or \<open>return nil\<close> of \<open>tenantDelete\<close>; or with a panic.
\<close>

datatype response =
    v1BadRequestResponse error
  | v1InternalServerErrorResponse error
  | v1TenantNotFoundResponse error
  | v1TenantCreatedResponse Tenant
  | v1TenantsResponse "Tenant list" pagination
  | v1TenantGetResponse Tenant
  | ReturnErr error
  | ReturnNil
  | Panic panic

text \<open>
  Modelled from the spec: the response helpers are declared outside the files at hand.
  Their HTTP status is the one the spec gives: 400 for a validation failure, 404 for
  not found, 500 for a persistence error, 201 for a created tenant, 200 otherwise. A
  plain \<open>return err\<close> goes to the default error handler of the HTTP framework, which
  answers an error of this kind with status 500 and the fixed message
  \<open>Internal Server Error\<close>; after a plain \<open>return nil\<close> with nothing written the
  server answers with an empty 200. What the caller sees after a panic is not
  modelled.
\<close>

fun status_code :: "response \<Rightarrow> nat option" where
  "status_code (v1BadRequestResponse e) = Some 400"
| "status_code (v1InternalServerErrorResponse e) = Some 500"
| "status_code (v1TenantNotFoundResponse e) = Some 404"
| "status_code (v1TenantCreatedResponse t) = Some 201"
| "status_code (v1TenantsResponse ts p) = Some 200"
| "status_code (v1TenantGetResponse t) = Some 200"
| "status_code (ReturnErr e) = Some 500"
| "status_code ReturnNil = Some 200"
| "status_code (Panic e) = None"

text \<open>
  Modelled from the spec: the generic 500 response of section 7 of the spec, a
  response of status 500 whose body carries no text of the error. The helper
  \<open>v1InternalServerErrorResponse\<close>, declared outside the files at hand, builds it
  ("mapped to a generic 500 without leaking internal detail"), and so does the default
  error handler of the framework for a plain \<open>return err\<close>.
\<close>

fun generic_500 :: "response \<Rightarrow> bool" where
  "generic_500 (v1InternalServerErrorResponse e) = True"
| "generic_500 (ReturnErr e) = True"
| "generic_500 other = False"

definition logError :: "string \<Rightarrow> error \<Rightarrow> 'db World \<Rightarrow> 'db World" where
  "logError m e w = w\<lparr>logged := logged w @ [(m, e)]\<rparr>"

text \<open>\<open>if err != nil { r.logger.Error(m, zap.Error(err)) }\<close>\<close>

definition logIfError :: "string \<Rightarrow> error option \<Rightarrow> 'db World \<Rightarrow> 'db World" where
  "logIfError m err w = (case err of None \<Rightarrow> w | Some e \<Rightarrow> logError m e w)"

text \<open>
  \<open>r.pubsub.PublishCreate(ctx, topic, scope, msg)\<close> and its two siblings: the
  submission is recorded and the publisher's outcome returned.
\<close>

definition publish ::
  "'db Router \<Rightarrow> event_kind \<Rightarrow> string \<Rightarrow> string \<Rightarrow> Message option \<Rightarrow> 'db World
     \<Rightarrow> error option \<times> 'db World" where
  "publish r k tp sc m w =
     (let call = \<lparr>kind = k, topic = tp, scope = sc, msg = m\<rparr>
      in (Publish r call, w\<lparr>published := published w @ [call]\<rparr>))"

definition PublishCreate ::
  "'db Router \<Rightarrow> string \<Rightarrow> string \<Rightarrow> Message option \<Rightarrow> 'db World \<Rightarrow> error option \<times> 'db World" where
  "PublishCreate r = publish r Created"

definition PublishUpdate ::
  "'db Router \<Rightarrow> string \<Rightarrow> string \<Rightarrow> Message option \<Rightarrow> 'db World \<Rightarrow> error option \<times> 'db World" where
  "PublishUpdate r = publish r Updated"

definition PublishDelete ::
  "'db Router \<Rightarrow> string \<Rightarrow> string \<Rightarrow> Message option \<Rightarrow> 'db World \<Rightarrow> error option \<times> 'db World" where
  "PublishDelete r = publish r Deleted"

text \<open>The zero value of \<open>models.Tenant\<close>, with the name set: \<open>&models.Tenant{Name: n}\<close>.\<close>

definition new_Tenant :: "string \<Rightarrow> Tenant" where
  "new_Tenant n =
     \<lparr> ID = '''', Name = n, Description = None, ParentTenantID = None,
       CreatedAt = 0, UpdatedAt = 0, DeletedAt = None \<rparr>"

section \<open>The handlers\<close>

text \<open>
  The five handlers of \<open>tenants.go\<close>, statement by statement. A handler takes the
  router, the request context and the state, and returns its response with the new
  state. The tracing span a handler opens and closes has no effect on the response,
  the database, the log or the publisher, and is left out.
\<close>

definition tenantCreate :: "'db Router \<Rightarrow> Context \<Rightarrow> 'db World \<Rightarrow> response \<times> 'db World" where
  "tenantCreate r c w =
    (case parseUUID c of (tenantID, err) \<Rightarrow>
     if err \<noteq> None \<and> err \<noteq> Some ErrUUIDNotFound then
       (v1BadRequestResponse (the err), logError ''invalid tenant uuid'' (the err) w)
     else
      (case Bind_createTenantRequest c of
        Inl e \<Rightarrow>
          (v1BadRequestResponse e, logError ''failed to bind tenant create request'' e w)
      | Inr createRequest \<Rightarrow>
         (case validate_create r createRequest of
            Some e \<Rightarrow> (v1BadRequestResponse e, logError ''invalid create request'' e w)
          | None \<Rightarrow>
            (let t = new_Tenant (createTenantRequest_Name createRequest);
                 additionalURNs = [];
                 (t, additionalURNs) =
                    (if tenantID \<noteq> ''''
                     then (t\<lparr>ParentTenantID := Some tenantID\<rparr>,
                           additionalURNs @ [NewTenantURN tenantID])
                     else (t, additionalURNs))
             in case Insert r t (db w) of
                  (Some e, t, db') \<Rightarrow>
                    (v1InternalServerErrorResponse e,
                     logError ''error inserting tenant'' e (w\<lparr>db := db'\<rparr>))
                | (None, t, db') \<Rightarrow>
                    (let w = w\<lparr>db := db'\<rparr>;
                         (m, err) = NewTenantMessage r (Actor c) (NewTenantURN (ID t)) additionalURNs;
                         w = logIfError ''failed to create tenant message'' err w;
                         (err, w) = PublishCreate r ''tenants'' ''global'' m w;
                         w = logIfError ''failed to publish tenant message'' err w
                     in (v1TenantCreatedResponse t, w))))))"

definition tenantList :: "'db Router \<Rightarrow> Context \<Rightarrow> 'db World \<Rightarrow> response \<times> 'db World" where
  "tenantList r c w =
    (let pg = parsePagination c;
         mods = [];
         (tenantID, err) = parseUUID c;
         sel = (if err = None
                then Inr (mods @ [TenantWhere_ParentTenantID_EQ (Some tenantID)])
                else if err = Some ErrUUIDNotFound
                then Inr (mods @ [TenantWhere_ParentTenantID_IsNull])
                else Inl (the err))
     in case sel of
          Inl e \<Rightarrow> (v1BadRequestResponse e, w)
        | Inr mods \<Rightarrow>
           (let mods = mods @ queryMods r pg
            in case All r mods (db w) of
                 Inl e \<Rightarrow>
                   (v1InternalServerErrorResponse e, logError ''failed to query tenants'' e w)
               | Inr ts \<Rightarrow> (v1TenantsResponse ts pg, w)))"

definition tenantGet :: "'db Router \<Rightarrow> Context \<Rightarrow> 'db World \<Rightarrow> response \<times> 'db World" where
  "tenantGet r c w =
    (let mods = [] in
     case parseUUID c of
       (tenantID, Some e) \<Rightarrow> (v1BadRequestResponse e, w)
     | (tenantID, None) \<Rightarrow>
        (let mods = mods @ [TenantWhere_ID_EQ tenantID]
         in case One r mods (db w) of
              Inl e \<Rightarrow>
                if e = ErrNoRows then (v1TenantNotFoundResponse e, w)
                else (v1InternalServerErrorResponse e, logError ''failed to query tenants'' e w)
            | Inr t \<Rightarrow> (v1TenantGetResponse t, w)))"

text \<open>
  In \<open>tenantUpdate\<close> the test \<open>payload.Name != nil\<close> reads a field through the
  pointer \<open>payload\<close>: with the nil payload of a \<open>null\<close> body that passed validation,
  the handler panics there, after the lookup and before any update.
\<close>

definition tenantUpdate :: "'db Router \<Rightarrow> Context \<Rightarrow> 'db World \<Rightarrow> response \<times> 'db World" where
  "tenantUpdate r c w =
    (let mods = [] in
     case parseUUID c of
       (tenantID, Some e) \<Rightarrow> (v1BadRequestResponse e, w)
     | (tenantID, None) \<Rightarrow>
      (case Bind_updateTenantRequest c of
        Inl e \<Rightarrow>
          (v1BadRequestResponse e, logError ''failed to bind update tenant request'' e w)
      | Inr payload \<Rightarrow>
         (case validate_update r payload of
            Some e \<Rightarrow> (v1BadRequestResponse e, logError ''invalid update tenant request'' e w)
          | None \<Rightarrow>
            (let mods = mods @ [TenantWhere_ID_EQ tenantID]
             in case One r mods (db w) of
                  Inl e \<Rightarrow>
                    if e = ErrNoRows then (v1TenantNotFoundResponse e, w)
                    else (v1InternalServerErrorResponse e,
                          logError ''failed to query tenants'' e w)
                | Inr t \<Rightarrow>
                   (case payload of
                      None \<Rightarrow> (Panic NilPointerDereference, w)
                    | Some payload \<Rightarrow>
                   (let t = (case updateTenantRequest_Name payload of
                               Some n \<Rightarrow> t\<lparr>Name := n\<rparr>
                             | None \<Rightarrow> t)
                    in case Update r t (db w) of
                         (Some e, t, db') \<Rightarrow>
                           (v1InternalServerErrorResponse e,
                            logError ''failed to update tenant'' e (w\<lparr>db := db'\<rparr>))
                       | (None, t, db') \<Rightarrow>
                           (let w = w\<lparr>db := db'\<rparr>;
                                (m, err) = UpdateTenantMessage r (Actor c) (NewTenantURN (ID t));
                                w = logIfError ''failed to create, update tenant message'' err w;
                                (err, w) = PublishUpdate r ''tenants'' ''global'' m w;
                                w = logIfError ''failed to publish, update tenant message'' err w
                            in (v1TenantGetResponse t, w))))))))"

definition tenantDelete :: "'db Router \<Rightarrow> Context \<Rightarrow> 'db World \<Rightarrow> response \<times> 'db World" where
  "tenantDelete r c w =
    (let mods = [] in
     case parseUUID c of
       (tenantID, Some e) \<Rightarrow> (v1BadRequestResponse e, w)
     | (tenantID, None) \<Rightarrow>
        (let mods = mods @ [TenantWhere_ID_EQ tenantID]
         in case One r mods (db w) of
              Inl e \<Rightarrow>
                if e = ErrNoRows then (v1TenantNotFoundResponse e, w)
                else (v1InternalServerErrorResponse e, logError ''failed to query tenants'' e w)
            | Inr t \<Rightarrow>
               (case Delete r t False (db w) of
                  (Some e, t, db') \<Rightarrow>
                    (ReturnErr e, logError ''failed to delete tenant'' e (w\<lparr>db := db'\<rparr>))
                | (None, t, db') \<Rightarrow>
                    (let w = w\<lparr>db := db'\<rparr>;
                         (m, err) = DeleteTenantMessage r (Actor c) (NewTenantURN (ID t));
                         w = logIfError ''failed to create, delete tenant message'' err w;
                         (err, w) = PublishDelete r ''tenants'' ''global'' m w;
                         w = logIfError ''failed to publish, delete tenant message'' err w
                     in (ReturnNil, w)))))"

section \<open>The tenant repository\<close>

text \<open>
  The generated persistence code of \<open>internal/models\<close> (\<open>Tenants(mods...).One\<close>,
  \<open>.All\<close>, \<open>Insert\<close>, \<open>Update\<close>, \<open>Delete\<close>) and \<open>pagination.queryMods\<close> are outside the
  files at hand. The repository below is modelled from section 4.2 of the spec. The
  table is the list of rows in insertion order; a soft-deleted row stays in the table
  with \<open>deleted_at\<close> set and is left out of every query. The new identifier and the
  clock reading are chosen by the persistence layer and are parameters here.
\<close>

type_synonym table = "Tenant list"

text \<open>
  Modelled from the spec: the condition a query modifier of \<open>models.TenantWhere\<close> puts
  on a row (equality on the id, equality on the parent reference, null parent
  reference); limit and offset are no conditions.
\<close>

fun where_holds :: "QueryMod \<Rightarrow> Tenant \<Rightarrow> bool" where
  "where_holds (TenantWhere_ID_EQ i) t = (ID t = i)"
| "where_holds (TenantWhere_ParentTenantID_EQ v) t = (ParentTenantID t = v)"
| "where_holds TenantWhere_ParentTenantID_IsNull t = (ParentTenantID t = None)"
| "where_holds (Limit n) t = True"
| "where_holds (Offset n) t = True"

text \<open>
  Modelled from the spec: the limit of a query, absent from the files at hand; the
  last limit modifier counts.
\<close>

fun limit_of :: "QueryMod list \<Rightarrow> nat option" where
  "limit_of [] = None"
| "limit_of (Limit n # ms) = (case limit_of ms of None \<Rightarrow> Some n | Some k \<Rightarrow> Some k)"
| "limit_of (m # ms) = limit_of ms"

text \<open>
  Modelled from the spec: the offset of a query, absent from the files at hand; the
  last offset modifier counts.
\<close>

fun offset_of :: "QueryMod list \<Rightarrow> nat option" where
  "offset_of [] = None"
| "offset_of (Offset n # ms) = (case offset_of ms of None \<Rightarrow> Some n | Some k \<Rightarrow> Some k)"
| "offset_of (m # ms) = offset_of ms"

text \<open>
  Modelled from the spec: the rows a query ranges over, absent from the files at hand.
  Predicates are AND-combined, and soft-deleted tenants are excluded from listings and
  from the lookup by id.
\<close>

definition matching :: "QueryMod list \<Rightarrow> table \<Rightarrow> Tenant list" where
  "matching mods rows =
     filter (\<lambda>t. DeletedAt t = None \<and> list_all (\<lambda>m. where_holds m t) mods) rows"

text \<open>
  Modelled from the spec: offset/limit pagination, absent from the files at hand: skip
  \<open>offset\<close> rows, then keep at most \<open>limit\<close>.
\<close>

definition page :: "QueryMod list \<Rightarrow> Tenant list \<Rightarrow> Tenant list" where
  "page mods ts =
     (let ts = (case offset_of mods of None \<Rightarrow> ts | Some k \<Rightarrow> drop k ts)
      in case limit_of mods of None \<Rightarrow> ts | Some n \<Rightarrow> take n ts)"

text \<open>
  Modelled from the spec: \<open>find(predicates, pagination)\<close>, absent from the files at
  hand: the matching rows in a stable order (\<open>created_at\<close> ascending, insertion order
  among equal timestamps), cut to the page.
\<close>

definition repository_find :: "QueryMod list \<Rightarrow> table \<Rightarrow> Tenant list" where
  "repository_find mods rows = page mods (sort_key CreatedAt (matching mods rows))"

text \<open>
  Modelled from the spec: \<open>models.Tenants(mods...).All\<close>, absent from the files at
  hand: the result of \<open>find\<close>.
\<close>

definition repository_All :: "QueryMod list \<Rightarrow> table \<Rightarrow> error + Tenant list" where
  "repository_All mods rows = Inr (repository_find mods rows)"

text \<open>
  Modelled from the spec: \<open>models.Tenants(mods...).One\<close>, absent from the files at
  hand: \<open>getByID\<close> fails with NotFound (\<open>sql.ErrNoRows\<close>) when no row matches, a
  soft-deleted row included.
\<close>

definition repository_One :: "QueryMod list \<Rightarrow> table \<Rightarrow> error + Tenant" where
  "repository_One mods rows =
     (case repository_find mods rows of [] \<Rightarrow> Inl ErrNoRows | t # ts \<Rightarrow> Inr t)"

text \<open>
  Modelled from the spec: \<open>Tenant.Insert\<close>, absent from the files at hand: \<open>insert\<close>
  assigns the identifier and \<open>created_at\<close>/\<open>updated_at\<close> and persists; it fails with
  ConstraintViolation if \<open>parent_tenant_id\<close> is set but does not reference an existing
  tenant.
\<close>

definition repository_Insert ::
  "string \<Rightarrow> timestamp \<Rightarrow> Tenant \<Rightarrow> table \<Rightarrow> error option \<times> Tenant \<times> table" where
  "repository_Insert newid now t rows =
     (case ParentTenantID t of
        Some p \<Rightarrow>
          if p \<notin> set (map ID rows) then (Some ErrConstraintViolation, t, rows)
          else (let t' = t\<lparr>ID := newid, CreatedAt := now, UpdatedAt := now\<rparr>
                in (None, t', rows @ [t']))
      | None \<Rightarrow>
          (let t' = t\<lparr>ID := newid, CreatedAt := now, UpdatedAt := now\<rparr>
           in (None, t', rows @ [t'])))"

text \<open>
  Modelled from the spec: \<open>Tenant.Update\<close>, absent from the files at hand: \<open>update\<close>
  writes the supplied fields to the row of that id and refreshes \<open>updated_at\<close>; it
  fails with NotFound if the id is absent.
\<close>

definition repository_Update ::
  "timestamp \<Rightarrow> Tenant \<Rightarrow> table \<Rightarrow> error option \<times> Tenant \<times> table" where
  "repository_Update now t rows =
     (if ID t \<notin> set (map ID rows) then (Some ErrNoRows, t, rows)
      else (let t' = t\<lparr>UpdatedAt := now\<rparr>
            in (None, t', map (\<lambda>row. if ID row = ID t then t' else row) rows)))"

text \<open>
  Modelled from the spec: \<open>Tenant.Delete\<close>, absent from the files at hand:
  \<open>softDelete\<close> sets \<open>deleted_at\<close> and does not remove the row; it fails with NotFound
  if the id is absent or already deleted. A hard delete, which no handler requests,
  removes the row.
\<close>

definition repository_Delete ::
  "timestamp \<Rightarrow> Tenant \<Rightarrow> bool \<Rightarrow> table \<Rightarrow> error option \<times> Tenant \<times> table" where
  "repository_Delete now t hardDelete rows =
     (if \<not> list_ex (\<lambda>row. ID row = ID t \<and> DeletedAt row = None) rows
      then (Some ErrNoRows, t, rows)
      else if hardDelete then (None, t, filter (\<lambda>row. ID row \<noteq> ID t) rows)
      else (None, t\<lparr>DeletedAt := Some now\<rparr>,
            map (\<lambda>row. if ID row = ID t \<and> DeletedAt row = None
                        then row\<lparr>DeletedAt := Some now\<rparr> else row) rows))"

text \<open>
  Modelled from the spec: \<open>pagination.queryMods\<close>, absent from the files at hand: the
  limit and the offset of the page.
\<close>

definition pagination_queryMods :: "pagination \<Rightarrow> QueryMod list" where
  "pagination_queryMods pg = [Limit (limit pg), Offset (offset pg)]"

text \<open>
  Modelled from the spec: the message constructors of \<open>internal/pubsub\<close>, absent from
  the files at hand; a message carries the actor, the resource URN and the additional
  URNs it was built from.
\<close>

definition newMessage :: "string \<Rightarrow> string \<Rightarrow> string list \<Rightarrow> Message option \<times> error option" where
  "newMessage a u us = (Some \<lparr>actor = a, resourceURN = u, additionalURNs = us\<rparr>, None)"

text \<open>
  Modelled from the spec: a router whose persistence operations are those of the
  repository above, at the identifier \<open>newid\<close> and the clock reading \<open>now\<close> the
  persistence layer chooses for this request, and whose messages are built by
  \<open>newMessage\<close>. The validation of request bodies and the outcome of the publisher stay
  those of the given router.
\<close>

definition with_repository :: "string \<Rightarrow> timestamp \<Rightarrow> table Router \<Rightarrow> table Router" where
  "with_repository newid now r =
     r\<lparr> queryMods := pagination_queryMods,
        Insert := repository_Insert newid now,
        One := repository_One,
        All := repository_All,
        Update := repository_Update now,
        Delete := repository_Delete now,
        NewTenantMessage := newMessage,
        UpdateTenantMessage := (\<lambda>a u. newMessage a u []),
        DeleteTenantMessage := (\<lambda>a u. newMessage a u []) \<rparr>"

section \<open>The predicate builder\<close>

subsection \<open>The selector of the query library\<close>

text \<open>
  A tenant predicate is a function on a \<open>*sql.Selector\<close> of the query library
  (\<open>entgo.io/ent/dialect/sql\<close>, a dependency of the repository). The part of the
  selector the combinators touch is its predicate state: the pointer \<open>where\<close> to the
  condition built so far, and the two flags \<open>or\<close> and \<open>not\<close> that say how the next
  condition is attached. A \<open>*sql.Predicate\<close> is the nil pointer \<open>NilP\<close>, an atomic
  condition on a row, or a conjunction, disjunction or negation of predicate pointers.

  SQL conditions are three-valued: a comparison with a NULL column is unknown, and a
  row is selected when its condition is true.
\<close>

datatype tri = SqlTrue | SqlFalse | SqlNull

fun sql_and :: "tri \<Rightarrow> tri \<Rightarrow> tri" where
  "sql_and SqlFalse y = SqlFalse"
| "sql_and x SqlFalse = SqlFalse"
| "sql_and SqlTrue SqlTrue = SqlTrue"
| "sql_and x y = SqlNull"

fun sql_or :: "tri \<Rightarrow> tri \<Rightarrow> tri" where
  "sql_or SqlTrue y = SqlTrue"
| "sql_or x SqlTrue = SqlTrue"
| "sql_or SqlFalse SqlFalse = SqlFalse"
| "sql_or x y = SqlNull"

fun sql_not :: "tri \<Rightarrow> tri" where
  "sql_not SqlTrue = SqlFalse"
| "sql_not SqlFalse = SqlTrue"
| "sql_not SqlNull = SqlNull"

datatype Predicate =
    NilP
  | Leaf "Tenant \<Rightarrow> tri"
  | AndP Predicate Predicate
  | OrP Predicate Predicate
  | NotP Predicate

record Selector =
  sel_where :: Predicate
  sel_or :: bool
  sel_not :: bool

text \<open>\<open>s.Where(p)\<close>: a pending \<open>not\<close> negates \<open>p\<close>; the first condition is stored as
  it is, a later one is joined with OR when \<open>or\<close> is pending and with AND otherwise.\<close>

definition Selector_Where :: "Selector \<Rightarrow> Predicate \<Rightarrow> Selector" where
  "Selector_Where s p =
     (let (p, s) = (if sel_not s then (NotP p, s\<lparr>sel_not := False\<rparr>) else (p, s))
      in if sel_where s = NilP then s\<lparr>sel_where := p\<rparr>
         else if sel_or s then s\<lparr>sel_where := OrP (sel_where s) p, sel_or := False\<rparr>
         else s\<lparr>sel_where := AndP (sel_where s) p\<rparr>)"

definition Selector_P :: "Selector \<Rightarrow> Predicate" where
  "Selector_P s = sel_where s"

definition Selector_SetP :: "Selector \<Rightarrow> Predicate \<Rightarrow> Selector" where
  "Selector_SetP s p = s\<lparr>sel_where := p, sel_or := False, sel_not := False\<rparr>"

definition Selector_Clone :: "Selector \<Rightarrow> Selector" where
  "Selector_Clone s = s"

definition Selector_Or :: "Selector \<Rightarrow> Selector" where
  "Selector_Or s = s\<lparr>sel_or := True\<rparr>"

definition Selector_Not :: "Selector \<Rightarrow> Selector" where
  "Selector_Not s = s\<lparr>sel_not := True\<rparr>"

text \<open>
  The condition a predicate pointer denotes on a row. Rendering a predicate that holds
  a nil pointer dereferences it, and the query is not built.
\<close>

fun holds :: "Predicate \<Rightarrow> Tenant \<Rightarrow> panic + tri" where
  "holds NilP t = Inl NilPointerDereference"
| "holds (Leaf f) t = Inr (f t)"
| "holds (AndP a b) t =
     (case holds a t of
        Inl e \<Rightarrow> Inl e
      | Inr x \<Rightarrow> (case holds b t of Inl e \<Rightarrow> Inl e | Inr y \<Rightarrow> Inr (sql_and x y)))"
| "holds (OrP a b) t =
     (case holds a t of
        Inl e \<Rightarrow> Inl e
      | Inr x \<Rightarrow> (case holds b t of Inl e \<Rightarrow> Inl e | Inr y \<Rightarrow> Inr (sql_or x y)))"
| "holds (NotP a) t =
     (case holds a t of Inl e \<Rightarrow> Inl e | Inr x \<Rightarrow> Inr (sql_not x))"

text \<open>
  Whether the query built from a selector returns the row: a selector without a
  condition has no WHERE clause and returns every row.
\<close>

definition selects :: "Selector \<Rightarrow> Tenant \<Rightarrow> panic + bool" where
  "selects s t =
     (if sel_where s = NilP then Inr True
      else case holds (sel_where s) t of Inl e \<Rightarrow> Inl e | Inr v \<Rightarrow> Inr (v = SqlTrue))"

text \<open>The selector of a new query: no condition, no pending flag.\<close>

definition new_Selector :: Selector where
  "new_Selector = \<lparr>sel_where = NilP, sel_or = False, sel_not = False\<rparr>"

subsection \<open>Field predicates\<close>

text \<open>
  Modelled from the spec: the column constants \<open>FieldID\<close>, \<open>FieldName\<close>, ... of the
  package are declared outside the files at hand; they name the scalar fields of the
  Tenant entity.
\<close>

datatype Field =
    FieldID | FieldCreatedAt | FieldUpdatedAt | FieldName | FieldDescription
  | FieldParentTenantID

datatype Value = VString string | VTime timestamp

text \<open>The value of a column in a row; \<open>None\<close> is SQL NULL.\<close>

fun column :: "Field \<Rightarrow> Tenant \<Rightarrow> Value option" where
  "column FieldID t = Some (VString (ID t))"
| "column FieldCreatedAt t = Some (VTime (CreatedAt t))"
| "column FieldUpdatedAt t = Some (VTime (UpdatedAt t))"
| "column FieldName t = Some (VString (Name t))"
| "column FieldDescription t = map_option VString (Description t)"
| "column FieldParentTenantID t = map_option VString (ParentTenantID t)"

type_synonym predicate_Tenant = "Selector \<Rightarrow> Selector"

text \<open>
  Every field predicate of the package is \<open>predicate.Tenant(sql.FieldXX(...))\<close>: a
  function that adds one atomic condition with \<open>Where\<close>. Four of the library's helpers
  are written out.
\<close>

definition sql_FieldEQ :: "Field \<Rightarrow> Value \<Rightarrow> predicate_Tenant" where
  "sql_FieldEQ fld v =
     (\<lambda>s. Selector_Where s
        (Leaf (\<lambda>t. case column fld t of
                      None \<Rightarrow> SqlNull
                    | Some x \<Rightarrow> if x = v then SqlTrue else SqlFalse)))"

definition sql_FieldNEQ :: "Field \<Rightarrow> Value \<Rightarrow> predicate_Tenant" where
  "sql_FieldNEQ fld v =
     (\<lambda>s. Selector_Where s
        (Leaf (\<lambda>t. case column fld t of
                      None \<Rightarrow> SqlNull
                    | Some x \<Rightarrow> if x \<noteq> v then SqlTrue else SqlFalse)))"

definition sql_FieldIsNull :: "Field \<Rightarrow> predicate_Tenant" where
  "sql_FieldIsNull fld =
     (\<lambda>s. Selector_Where s
        (Leaf (\<lambda>t. if column fld t = None then SqlTrue else SqlFalse)))"

definition sql_FieldNotNull :: "Field \<Rightarrow> predicate_Tenant" where
  "sql_FieldNotNull fld =
     (\<lambda>s. Selector_Where s
        (Leaf (\<lambda>t. if column fld t \<noteq> None then SqlTrue else SqlFalse)))"

definition IDEQ :: "string \<Rightarrow> predicate_Tenant" where
  "IDEQ i = sql_FieldEQ FieldID (VString i)"

definition IDNEQ :: "string \<Rightarrow> predicate_Tenant" where
  "IDNEQ i = sql_FieldNEQ FieldID (VString i)"

definition NameEQ :: "string \<Rightarrow> predicate_Tenant" where
  "NameEQ v = sql_FieldEQ FieldName (VString v)"

definition NameNEQ :: "string \<Rightarrow> predicate_Tenant" where
  "NameNEQ v = sql_FieldNEQ FieldName (VString v)"

definition ParentTenantIDEQ :: "string \<Rightarrow> predicate_Tenant" where
  "ParentTenantIDEQ v = sql_FieldEQ FieldParentTenantID (VString v)"

definition ParentTenantIDIsNil :: predicate_Tenant where
  "ParentTenantIDIsNil = sql_FieldIsNull FieldParentTenantID"

definition ParentTenantIDNotNil :: predicate_Tenant where
  "ParentTenantIDNotNil = sql_FieldNotNull FieldParentTenantID"

subsection \<open>Edge predicates\<close>

text \<open>
  The edge predicates hand the selector to the graph helpers of the query library
  (\<open>entgo.io/ent/dialect/sql/sqlgraph\<close>, a dependency of the repository) with the step
  that describes the edge. What the library builds for a step depends on the schema
  and the database and is not part of the package; a step is given here by just that:
  the condition \<open>HasNeighbors\<close> adds for it, the selector of the neighbours that
  \<open>HasNeighborsWith\<close> starts from, and the condition \<open>sql.In(column, matches)\<close> that
  \<open>HasNeighborsWith\<close> adds once the given function has run on that selector.
\<close>

record Step =
  neighbours :: Predicate
  matches :: Selector
  in_matches :: "Selector \<Rightarrow> Predicate"

text \<open>\<open>sqlgraph.HasNeighbors(q, s)\<close>: one call \<open>q.Where(...)\<close> with the condition of the
  step.\<close>

definition sqlgraph_HasNeighbors :: "Selector \<Rightarrow> Step \<Rightarrow> Selector" where
  "sqlgraph_HasNeighbors q s = Selector_Where q (neighbours s)"

text \<open>\<open>sqlgraph.HasNeighborsWith(q, s, pred)\<close>: \<open>pred(matches)\<close>, then one call
  \<open>q.Where(sql.In(column, matches))\<close>.\<close>

definition sqlgraph_HasNeighborsWith ::
  "Selector \<Rightarrow> Step \<Rightarrow> (Selector \<Rightarrow> Selector) \<Rightarrow> Selector" where
  "sqlgraph_HasNeighborsWith q s pred =
     (let m = pred (matches s) in Selector_Where q (in_matches s m))"

text \<open>
  The four edge predicates of the package. The step that \<open>HasParent\<close> and \<open>HasChildren\<close>
  build with \<open>sqlgraph.NewStep\<close>, and the one \<open>newParentStep()\<close> and \<open>newChildrenStep()\<close>
  return, is the first argument here.
\<close>

definition HasParent :: "Step \<Rightarrow> predicate_Tenant" where
  "HasParent step = (\<lambda>s. sqlgraph_HasNeighbors s step)"

definition HasParentWith :: "Step \<Rightarrow> predicate_Tenant list \<Rightarrow> predicate_Tenant" where
  "HasParentWith step preds =
     (\<lambda>s. sqlgraph_HasNeighborsWith s step (\<lambda>s. fold (\<lambda>p s. p s) preds s))"

definition HasChildren :: "Step \<Rightarrow> predicate_Tenant" where
  "HasChildren step = (\<lambda>s. sqlgraph_HasNeighbors s step)"

definition HasChildrenWith :: "Step \<Rightarrow> predicate_Tenant list \<Rightarrow> predicate_Tenant" where
  "HasChildrenWith step preds =
     (\<lambda>s. sqlgraph_HasNeighborsWith s step (\<lambda>s. fold (\<lambda>p s. p s) preds s))"

subsection \<open>The combinators\<close>

text \<open>
  \<open>And\<close>: the predicates are applied in order to \<open>s1 := s.Clone().SetP(nil)\<close>, and the
  condition collected there is added to \<open>s\<close>.
\<close>

definition And :: "predicate_Tenant list \<Rightarrow> predicate_Tenant" where
  "And predicates =
     (\<lambda>s. let s1 = Selector_SetP (Selector_Clone s) NilP;
               s1 = fold (\<lambda>p s1. p s1) predicates s1
           in Selector_Where s (Selector_P s1))"

text \<open>\<open>Or\<close>: as \<open>And\<close>, with \<open>s1.Or()\<close> before every predicate but the first.\<close>

fun Or_loop :: "nat \<Rightarrow> predicate_Tenant list \<Rightarrow> Selector \<Rightarrow> Selector" where
  "Or_loop i [] s1 = s1"
| "Or_loop i (p # ps) s1 =
     (let s1 = (if i > 0 then Selector_Or s1 else s1)
      in Or_loop (Suc i) ps (p s1))"

definition Or :: "predicate_Tenant list \<Rightarrow> predicate_Tenant" where
  "Or predicates =
     (\<lambda>s. let s1 = Selector_SetP (Selector_Clone s) NilP;
               s1 = Or_loop 0 predicates s1
           in Selector_Where s (Selector_P s1))"

text \<open>\<open>Not\<close>: \<open>p(s.Not())\<close>.\<close>

definition Not_predicate :: "predicate_Tenant \<Rightarrow> predicate_Tenant" where
  "Not_predicate p = (\<lambda>s. p (Selector_Not s))"

text \<open>
  The predicates of the package: those that make one \<open>Where\<close> call with a condition
  the library allocated (every field predicate, and every edge predicate), and what
  \<open>And\<close>, \<open>Or\<close> and \<open>Not\<close> build from predicates of the package; a group may be empty.
\<close>

inductive tenant_predicate :: "predicate_Tenant \<Rightarrow> bool" where
  one_condition: "x \<noteq> NilP \<Longrightarrow> tenant_predicate (\<lambda>s. Selector_Where s x)"
| conj: "\<forall>p \<in> set ps. tenant_predicate p \<Longrightarrow> tenant_predicate (And ps)"
| disj: "\<forall>p \<in> set ps. tenant_predicate p \<Longrightarrow> tenant_predicate (Or ps)"
| neg: "tenant_predicate p \<Longrightarrow> tenant_predicate (Not_predicate p)"

subsection \<open>Predicate values\<close>

text \<open>
  A predicate is a function value: a reference to a closure, which holds the code of
  the function and what it captured. The closure of a field or edge predicate is
  given by the one \<open>Where\<close> call it makes; the closure that \<open>And\<close> returns captures the
  slice of predicates \<open>And\<close> was given, the one of \<open>Or\<close> likewise, and the one of \<open>Not\<close>
  the predicate \<open>Not\<close> was given. The store holds the closures allocated so far, and a
  reference is an index into it.
\<close>

type_synonym reference = nat

datatype closure =
    Where_closure Predicate
  | And_closure "reference list"
  | Or_closure "reference list"
  | Not_closure reference

type_synonym store = "closure list"

text \<open>
  The body of each combinator is one \<open>return\<close> of a function literal: it allocates the
  closure and writes nothing else.
\<close>

definition new_closure :: "closure \<Rightarrow> store \<Rightarrow> reference \<times> store" where
  "new_closure c h = (length h, h @ [c])"

definition And_value :: "reference list \<Rightarrow> store \<Rightarrow> reference \<times> store" where
  "And_value predicates h = new_closure (And_closure predicates) h"

definition Or_value :: "reference list \<Rightarrow> store \<Rightarrow> reference \<times> store" where
  "Or_value predicates h = new_closure (Or_closure predicates) h"

definition Not_value :: "reference \<Rightarrow> store \<Rightarrow> reference \<times> store" where
  "Not_value p h = new_closure (Not_closure p) h"

text \<open>
  Calling a predicate value runs the code of its closure on what the closure
  captured. A closure captures values that exist when it is allocated, so what the
  closures do is computed in the order of their allocation. Calling reads the store
  and changes the selector only. A reference that holds no closure cannot be called.
\<close>

definition look :: "predicate_Tenant option list \<Rightarrow> reference \<Rightarrow> predicate_Tenant option" where
  "look ds a = (if a < length ds then ds ! a else None)"

fun run :: "predicate_Tenant option list \<Rightarrow> closure \<Rightarrow> predicate_Tenant option" where
  "run ds (Where_closure x) = Some (\<lambda>s. Selector_Where s x)"
| "run ds (And_closure predicates) = map_option And (those (map (look ds) predicates))"
| "run ds (Or_closure predicates) = map_option Or (those (map (look ds) predicates))"
| "run ds (Not_closure p) = map_option Not_predicate (look ds p)"

definition meanings :: "store \<Rightarrow> predicate_Tenant option list" where
  "meanings h = foldl (\<lambda>ds c. ds @ [run ds c]) [] h"

definition call_value :: "store \<Rightarrow> reference \<Rightarrow> predicate_Tenant option" where
  "call_value h a = look (meanings h) a"

section \<open>Auxiliary notions for the statements\<close>

text \<open>The representation \<open>v1Tenant\<close> builds from a non-nil tenant.\<close>

definition tenant_of :: "Tenant \<Rightarrow> tenant" where
  "tenant_of t =
     \<lparr> tenant_ID = ID t, tenant_Name = Name t, tenant_ParentTenantID = ParentTenantID t,
       tenant_CreatedAt = CreatedAt t, tenant_UpdatedAt = UpdatedAt t,
       tenant_DeletedAt = DeletedAt t \<rparr>"

text \<open>
  A create request that reaches \<open>Insert\<close>: the path id parses or is missing, the body
  binds and validates. \<open>tenantID\<close> is the string \<open>parseUUID\<close> returned and \<open>req\<close> the
  bound body.
\<close>

definition create_valid ::
  "'db Router \<Rightarrow> Context \<Rightarrow> string \<Rightarrow> createTenantRequest \<Rightarrow> bool" where
  "create_valid r c tenantID req \<longleftrightarrow>
     (parseUUID c = (tenantID, None) \<or> parseUUID c = (tenantID, Some ErrUUIDNotFound))
     \<and> Bind_createTenantRequest c = Inr req
     \<and> validate_create r req = None"

text \<open>The tenant struct and the additional URNs \<open>tenantCreate\<close> has built when it
  calls \<open>Insert\<close>.\<close>

definition inserted_Tenant :: "string \<Rightarrow> createTenantRequest \<Rightarrow> Tenant" where
  "inserted_Tenant tenantID req =
     (if tenantID \<noteq> ''''
      then (new_Tenant (createTenantRequest_Name req))\<lparr>ParentTenantID := Some tenantID\<rparr>
      else new_Tenant (createTenantRequest_Name req))"

definition create_URNs :: "string \<Rightarrow> string list" where
  "create_URNs tenantID = (if tenantID \<noteq> '''' then [NewTenantURN tenantID] else [])"

text \<open>An update request that reaches the lookup of the tenant, with the non-nil
  payload \<open>payload\<close>.\<close>

definition update_valid ::
  "'db Router \<Rightarrow> Context \<Rightarrow> string \<Rightarrow> updateTenantRequest \<Rightarrow> bool" where
  "update_valid r c tenantID payload \<longleftrightarrow>
     parseUUID c = (tenantID, None)
     \<and> Bind_updateTenantRequest c = Inr (Some payload)
     \<and> validate_update r (Some payload) = None"

text \<open>The tenant struct \<open>tenantUpdate\<close> hands to \<open>Update\<close>, from the row it loaded.\<close>

definition updated_Tenant :: "updateTenantRequest \<Rightarrow> Tenant \<Rightarrow> Tenant" where
  "updated_Tenant payload t =
     (case updateTenantRequest_Name payload of Some n \<Rightarrow> t\<lparr>Name := n\<rparr> | None \<Rightarrow> t)"

text \<open>A submission as the handlers make it: always topic \<open>tenants\<close>, scope \<open>global\<close>.\<close>

definition submission :: "event_kind \<Rightarrow> Message option \<Rightarrow> publish_call" where
  "submission k m = \<lparr>kind = k, topic = ''tenants'', scope = ''global'', msg = m\<rparr>"

text \<open>The log entries of a successful mutation: one for a failed message
  construction, one for a failed publication.\<close>

definition event_log ::
  "string \<Rightarrow> string \<Rightarrow> error option \<Rightarrow> error option \<Rightarrow> (string \<times> error) list" where
  "event_log m1 m2 err perr =
     (case err of None \<Rightarrow> [] | Some e \<Rightarrow> [(m1, e)])
     @ (case perr of None \<Rightarrow> [] | Some e \<Rightarrow> [(m2, e)])"

text \<open>
  The effect of a predicate of the package on a selector: one \<open>Where\<close> call with a
  condition, after \<open>Not\<close> when \<open>b\<close> holds.
\<close>

definition adds :: "bool \<Rightarrow> Predicate \<Rightarrow> predicate_Tenant" where
  "adds b x = (\<lambda>s. Selector_Where (if b then Selector_Not s else s) x)"

text \<open>The condition such a predicate leaves on the fresh clone.\<close>

definition condition :: "bool \<Rightarrow> Predicate \<Rightarrow> Predicate" where
  "condition b x = (if b then NotP x else x)"

text \<open>
  What a predicate contributes to the group it is a member of: the condition it leaves
  on a selector without a condition and without a pending flag, \<open>NilP\<close> when it adds
  none.
\<close>

definition contribution :: "predicate_Tenant \<Rightarrow> Predicate" where
  "contribution p = sel_where (p new_Selector)"

subsection \<open>A small deployment\<close>

text \<open>
  Three tenants: the root \<open>acme\<close>, its child \<open>acme-east\<close>, and its soft-deleted child
  \<open>acme-west\<close>; a router over the repository whose validation rejects an empty name
  and whose publisher accepts every submission; and a request context without a path
  id.
\<close>

definition acme :: Tenant where
  "acme = \<lparr> ID = ''t_abc'', Name = ''acme'', Description = None, ParentTenantID = None,
            CreatedAt = 10, UpdatedAt = 10, DeletedAt = None \<rparr>"

definition acme_east :: Tenant where
  "acme_east = \<lparr> ID = ''t_east'', Name = ''acme-east'', Description = None,
                 ParentTenantID = Some ''t_abc'',
                 CreatedAt = 20, UpdatedAt = 20, DeletedAt = None \<rparr>"

definition acme_west :: Tenant where
  "acme_west = \<lparr> ID = ''t_west'', Name = ''acme-west'', Description = None,
                 ParentTenantID = Some ''t_abc'',
                 CreatedAt = 30, UpdatedAt = 40, DeletedAt = Some 40 \<rparr>"


definition acme_table :: table where
  "acme_table = [acme, acme_east, acme_west]"

definition acme_World :: "table World" where
  "acme_World = \<lparr> db = acme_table, logged = [], published = [] \<rparr>"

text \<open>
  The step of the parent edge, as the library sees it on the table above: a tenant has
  a parent when its parent reference is not NULL, and it has a parent among the rows
  that \<open>matches\<close> selects when its parent reference is the id of one of them.
\<close>

definition acme_parent_step :: Step where
  "acme_parent_step =
     \<lparr>neighbours = Leaf (\<lambda>t. if ParentTenantID t \<noteq> None then SqlTrue else SqlFalse),
      matches = new_Selector,
      in_matches = (\<lambda>m. Leaf (\<lambda>t. case ParentTenantID t of
                        None \<Rightarrow> SqlNull
                      | Some v \<Rightarrow> if \<exists>u \<in> set acme_table. ID u = v \<and> selects m u = Inr True
                                  then SqlTrue else SqlFalse))\<rparr>"

text \<open>
  A store that holds the closures of two field predicates: the name is \<open>acme\<close>, and
  the parent reference is NULL.
\<close>

definition acme_predicates :: store where
  "acme_predicates =
     [Where_closure (contribution (NameEQ ''acme'')),
      Where_closure (contribution ParentTenantIDIsNil)]"

definition bare_Router :: "table Router" where
  "bare_Router =
       \<lparr> validate_create =
           (\<lambda>req. if createTenantRequest_Name req = '''' then Some ErrValidation else None),
         validate_update = (\<lambda>payload. None),
         queryMods = pagination_queryMods,
         Insert = repository_Insert ''t_new'' 50,
         One = repository_One,
         All = repository_All,
         Update = repository_Update 50,
         Delete = repository_Delete 50,
         NewTenantMessage = newMessage,
         UpdateTenantMessage = (\<lambda>a u. newMessage a u []),
         DeleteTenantMessage = (\<lambda>a u. newMessage a u []),
         Publish = (\<lambda>call. None) \<rparr>"

definition plain_Router :: "table Router" where
  "plain_Router = with_repository ''t_new'' 50 bare_Router"

definition plain_Context :: Context where
  "plain_Context =
     \<lparr> parseUUID = ('''', Some ErrUUIDNotFound),
       Bind_createTenantRequest = Inr \<lparr>createTenantRequest_Name = ''acme-north''\<rparr>,
       Bind_updateTenantRequest = Inr (Some \<lparr>updateTenantRequest_Name = Some ''acme-2''\<rparr>),
       Actor = ''urn:infratographer:user:alice'',
       parsePagination = \<lparr>limit = 10, offset = 0\<rparr> \<rparr>"

text \<open>A router whose message constructors and publisher fail.\<close>

definition silent_bus :: "table Router \<Rightarrow> table Router" where
  "silent_bus r =
     r\<lparr> NewTenantMessage := (\<lambda>a u us. (None, Some (ErrOther ''no message''))),
        UpdateTenantMessage := (\<lambda>a u. (None, Some (ErrOther ''no message''))),
        DeleteTenantMessage := (\<lambda>a u. (None, Some (ErrOther ''no message''))),
        Publish := (\<lambda>call. Some (ErrOther ''bus down'')) \<rparr>"

text \<open>A router whose mutations fail.\<close>

definition broken_store :: "table Router \<Rightarrow> table Router" where
  "broken_store r =
     r\<lparr> Insert := (\<lambda>t rows. (Some (ErrOther ''connection lost''), t, rows)),
        Update := (\<lambda>t rows. (Some (ErrOther ''connection lost''), t, rows)),
        Delete := (\<lambda>t hardDelete rows. (Some (ErrOther ''connection lost''), t, rows)) \<rparr>"

section \<open>The outward representation\<close>

lemma v1Tenant_Some: "v1Tenant (Some t) = Inr (tenant_of t)"
  by (simp add: v1Tenant_def tenant_of_def)

lemma v1Tenant_nil: "v1Tenant None = Inl NilPointerDereference"
  by (simp add: v1Tenant_def)

text \<open>
  The loop invariant: when the slice being filled has room for the tenants still to
  come, the loop keeps what lies before index \<open>i\<close> and appends their representations.
\<close>

lemma v1TenantSlice_loop_fill:
  "length acc = i + length ts \<Longrightarrow>
   v1TenantSlice_loop i (map Some ts) acc
     = Inr (take i acc @ map (\<lambda>t. Some (tenant_of t)) ts)"
proof (induction ts arbitrary: i acc)
  case Nil
  then show ?case by simp
next
  case (Cons t ts)
  have room: "i < length acc"
    using Cons.prems by simp
  have len: "length (acc[i := Some (tenant_of t)]) = Suc i + length ts"
    using Cons.prems by simp
  have "take (Suc i) (acc[i := Some (tenant_of t)]) = take i acc @ [Some (tenant_of t)]"
    using room by (simp add: take_Suc_conv_app_nth)
  with Cons.IH[OF len] show ?case
    by (simp add: v1Tenant_Some)
qed

lemma v1TenantSlice_map:
  "v1TenantSlice (map Some ts) = Inr (map (\<lambda>t. Some (tenant_of t)) ts)"
  using v1TenantSlice_loop_fill[of "replicate (length ts) None" 0 ts]
  by (simp add: v1TenantSlice_def)

text \<open>
  C10. For every tenant model value \<open>t\<close>, \<open>v1Tenant\<close> copies id, name, createdAt and
  updatedAt, and the two optional fields are present exactly when the model's nullable
  fields are non-null (with the same value); for every slice of (non-nil) tenants,
  \<open>v1TenantSlice\<close> returns a slice of the same length whose element \<open>i\<close> is \<open>v1Tenant\<close>
  of element \<open>i\<close>.
\<close>

theorem v1Tenant_copies_and_slice_pointwise:
  "(\<exists>x. v1Tenant (Some t) = Inr x
        \<and> tenant_ID x = ID t \<and> tenant_Name x = Name t
        \<and> tenant_CreatedAt x = CreatedAt t \<and> tenant_UpdatedAt x = UpdatedAt t
        \<and> (tenant_ParentTenantID x \<noteq> None \<longleftrightarrow> ParentTenantID t \<noteq> None)
        \<and> tenant_ParentTenantID x = ParentTenantID t
        \<and> (tenant_DeletedAt x \<noteq> None \<longleftrightarrow> DeletedAt t \<noteq> None)
        \<and> tenant_DeletedAt x = DeletedAt t)
   \<and> (\<exists>xs. v1TenantSlice (map Some ts) = Inr xs
        \<and> length xs = length ts
        \<and> (\<forall>i < length ts. \<exists>x. xs ! i = Some x \<and> v1Tenant (Some (ts ! i)) = Inr x))"
proof
  show "\<exists>x. v1Tenant (Some t) = Inr x
        \<and> tenant_ID x = ID t \<and> tenant_Name x = Name t
        \<and> tenant_CreatedAt x = CreatedAt t \<and> tenant_UpdatedAt x = UpdatedAt t
        \<and> (tenant_ParentTenantID x \<noteq> None \<longleftrightarrow> ParentTenantID t \<noteq> None)
        \<and> tenant_ParentTenantID x = ParentTenantID t
        \<and> (tenant_DeletedAt x \<noteq> None \<longleftrightarrow> DeletedAt t \<noteq> None)
        \<and> tenant_DeletedAt x = DeletedAt t"
    by (simp add: v1Tenant_Some tenant_of_def)
next
  show "\<exists>xs. v1TenantSlice (map Some ts) = Inr xs
        \<and> length xs = length ts
        \<and> (\<forall>i < length ts. \<exists>x. xs ! i = Some x \<and> v1Tenant (Some (ts ! i)) = Inr x)"
    by (simp add: v1TenantSlice_map v1Tenant_Some)
qed

theorem v1Tenant_copies_and_slice_pointwise_witness:
  "v1Tenant (Some acme_east)
     = Inr \<lparr> tenant_ID = ''t_east'', tenant_Name = ''acme-east'',
             tenant_ParentTenantID = Some ''t_abc'', tenant_CreatedAt = 20,
             tenant_UpdatedAt = 20, tenant_DeletedAt = None \<rparr>
   \<and> (\<exists>xs. v1TenantSlice (map Some [acme, acme_east]) = Inr xs
         \<and> length xs = 2
         \<and> (\<exists>x. xs ! 1 = Some x \<and> v1Tenant (Some acme_east) = Inr x))"
proof -
  have "\<exists>xs. v1TenantSlice (map Some [acme, acme_east]) = Inr xs
        \<and> length xs = length [acme, acme_east]
        \<and> (\<forall>i < length [acme, acme_east].
              \<exists>x. xs ! i = Some x \<and> v1Tenant (Some ([acme, acme_east] ! i)) = Inr x)"
    using v1Tenant_copies_and_slice_pointwise[of acme_east "[acme, acme_east]"] by blast
  then obtain xs where xs: "v1TenantSlice (map Some [acme, acme_east]) = Inr xs"
    "length xs = length [acme, acme_east]"
    "\<forall>i < length [acme, acme_east].
        \<exists>x. xs ! i = Some x \<and> v1Tenant (Some ([acme, acme_east] ! i)) = Inr x"
    by blast
  from xs(3) have "\<exists>x. xs ! 1 = Some x \<and> v1Tenant (Some acme_east) = Inr x"
    by (simp add: All_less_Suc2 numeral_2_eq_2)
  with xs(1,2) have "\<exists>xs. v1TenantSlice (map Some [acme, acme_east]) = Inr xs
         \<and> length xs = 2
         \<and> (\<exists>x. xs ! 1 = Some x \<and> v1Tenant (Some acme_east) = Inr x)"
    by auto
  moreover have "v1Tenant (Some acme_east)
     = Inr \<lparr> tenant_ID = ''t_east'', tenant_Name = ''acme-east'',
             tenant_ParentTenantID = Some ''t_abc'', tenant_CreatedAt = 20,
             tenant_UpdatedAt = 20, tenant_DeletedAt = None \<rparr>"
    by (simp add: v1Tenant_def acme_east_def)
  ultimately show ?thesis by blast
qed

text \<open>A nil pointer in the slice makes the loop panic, as the dereference in
  \<open>v1Tenant\<close> does.\<close>

lemma v1TenantSlice_nil_element:
  "v1TenantSlice [Some acme, None] = Inl NilPointerDereference"
  by (simp add: v1TenantSlice_def v1Tenant_def)

section \<open>Persistence outcome, events and responses\<close>

lemma published_logError [simp]: "published (logError m e w) = published w"
  by (simp add: logError_def)

lemma db_logError [simp]: "db (logError m e w) = db w"
  by (simp add: logError_def)

lemma logged_logError [simp]: "logged (logError m e w) = logged w @ [(m, e)]"
  by (simp add: logError_def)

lemma published_logIfError [simp]: "published (logIfError m err w) = published w"
  by (simp add: logIfError_def split: option.splits)

lemma db_logIfError [simp]: "db (logIfError m err w) = db w"
  by (simp add: logIfError_def split: option.splits)

lemma logged_logIfError [simp]:
  "logged (logIfError m err w)
     = logged w @ (case err of None \<Rightarrow> [] | Some e \<Rightarrow> [(m, e)])"
  by (simp add: logIfError_def split: option.splits)

text \<open>The tail of a successful mutation: build the message, log a failure, submit,
  log a failure.\<close>

lemma publish_effect:
  "publish r k ''tenants'' ''global'' m w
     = (Publish r (submission k m), w\<lparr>published := published w @ [submission k m]\<rparr>)"
  by (simp add: publish_def submission_def Let_def)

subsection \<open>Create\<close>

lemma tenantCreate_Insert_fails:
  assumes "create_valid r c tenantID req"
    and "Insert r (inserted_Tenant tenantID req) (db w) = (Some e, t', db')"
  shows "tenantCreate r c w =
           (v1InternalServerErrorResponse e,
            logError ''error inserting tenant'' e (w\<lparr>db := db'\<rparr>))"
  using assms
  by (auto simp: tenantCreate_def create_valid_def inserted_Tenant_def Let_def)

lemma tenantCreate_Insert_ok:
  assumes "create_valid r c tenantID req"
    and "Insert r (inserted_Tenant tenantID req) (db w) = (None, t', db')"
    and "NewTenantMessage r (Actor c) (NewTenantURN (ID t')) (create_URNs tenantID) = (m, err)"
  shows "fst (tenantCreate r c w) = v1TenantCreatedResponse t'"
    and "db (snd (tenantCreate r c w)) = db'"
    and "published (snd (tenantCreate r c w)) = published w @ [submission Created m]"
    and "logged (snd (tenantCreate r c w))
           = logged w @ event_log ''failed to create tenant message''
                          ''failed to publish tenant message'' err
                          (Publish r (submission Created m))"
  using assms
  by (auto simp: tenantCreate_def create_valid_def inserted_Tenant_def create_URNs_def Let_def
        PublishCreate_def publish_effect event_log_def split: prod.splits)

subsection \<open>Update\<close>

lemma tenantUpdate_Update_fails:
  assumes "update_valid r c tenantID payload"
    and "One r [TenantWhere_ID_EQ tenantID] (db w) = Inr t"
    and "Update r (updated_Tenant payload t) (db w) = (Some e, t', db')"
  shows "tenantUpdate r c w =
           (v1InternalServerErrorResponse e,
            logError ''failed to update tenant'' e (w\<lparr>db := db'\<rparr>))"
  using assms
  by (auto simp: tenantUpdate_def update_valid_def updated_Tenant_def Let_def)

lemma tenantUpdate_Update_ok:
  assumes "update_valid r c tenantID payload"
    and "One r [TenantWhere_ID_EQ tenantID] (db w) = Inr t"
    and "Update r (updated_Tenant payload t) (db w) = (None, t', db')"
    and "UpdateTenantMessage r (Actor c) (NewTenantURN (ID t')) = (m, err)"
  shows "fst (tenantUpdate r c w) = v1TenantGetResponse t'"
    and "db (snd (tenantUpdate r c w)) = db'"
    and "published (snd (tenantUpdate r c w)) = published w @ [submission Updated m]"
    and "logged (snd (tenantUpdate r c w))
           = logged w @ event_log ''failed to create, update tenant message''
                          ''failed to publish, update tenant message'' err
                          (Publish r (submission Updated m))"
  using assms
  by (auto simp: tenantUpdate_def update_valid_def updated_Tenant_def Let_def
        PublishUpdate_def publish_effect event_log_def split: prod.splits)

subsection \<open>Delete\<close>

lemma tenantDelete_Delete_fails:
  assumes "parseUUID c = (tenantID, None)"
    and "One r [TenantWhere_ID_EQ tenantID] (db w) = Inr t"
    and "Delete r t False (db w) = (Some e, t', db')"
  shows "tenantDelete r c w =
           (ReturnErr e, logError ''failed to delete tenant'' e (w\<lparr>db := db'\<rparr>))"
  using assms
  by (auto simp: tenantDelete_def Let_def)

lemma tenantDelete_Delete_ok:
  assumes "parseUUID c = (tenantID, None)"
    and "One r [TenantWhere_ID_EQ tenantID] (db w) = Inr t"
    and "Delete r t False (db w) = (None, t', db')"
    and "DeleteTenantMessage r (Actor c) (NewTenantURN (ID t')) = (m, err)"
  shows "fst (tenantDelete r c w) = ReturnNil"
    and "db (snd (tenantDelete r c w)) = db'"
    and "published (snd (tenantDelete r c w)) = published w @ [submission Deleted m]"
    and "logged (snd (tenantDelete r c w))
           = logged w @ event_log ''failed to create, delete tenant message''
                          ''failed to publish, delete tenant message'' err
                          (Publish r (submission Deleted m))"
  using assms
  by (auto simp: tenantDelete_def Let_def
        PublishDelete_def publish_effect event_log_def split: prod.splits)

subsection \<open>Lookups\<close>

lemma tenantGet_One:
  assumes "parseUUID c = (tenantID, None)"
  shows "tenantGet r c w =
     (case One r [TenantWhere_ID_EQ tenantID] (db w) of
        Inl e \<Rightarrow> if e = ErrNoRows then (v1TenantNotFoundResponse e, w)
                   else (v1InternalServerErrorResponse e,
                         logError ''failed to query tenants'' e w)
      | Inr t \<Rightarrow> (v1TenantGetResponse t, w))"
  using assms by (simp add: tenantGet_def)

lemma tenantUpdate_One_fails:
  assumes "update_valid r c tenantID payload"
    and "One r [TenantWhere_ID_EQ tenantID] (db w) = Inl e"
  shows "tenantUpdate r c w =
     (if e = ErrNoRows then (v1TenantNotFoundResponse e, w)
      else (v1InternalServerErrorResponse e, logError ''failed to query tenants'' e w))"
  using assms by (simp add: tenantUpdate_def update_valid_def)

lemma tenantDelete_One_fails:
  assumes "parseUUID c = (tenantID, None)"
    and "One r [TenantWhere_ID_EQ tenantID] (db w) = Inl e"
  shows "tenantDelete r c w =
     (if e = ErrNoRows then (v1TenantNotFoundResponse e, w)
      else (v1InternalServerErrorResponse e, logError ''failed to query tenants'' e w))"
  using assms by (simp add: tenantDelete_def)

lemma tenantList_All:
  assumes "parseUUID c = (tenantID, err)" and "err = None \<or> err = Some ErrUUIDNotFound"
  shows "tenantList r c w =
     (case All r ((if err = None then TenantWhere_ParentTenantID_EQ (Some tenantID)
                   else TenantWhere_ParentTenantID_IsNull) # queryMods r (parsePagination c))
             (db w) of
        Inl e \<Rightarrow> (v1InternalServerErrorResponse e, logError ''failed to query tenants'' e w)
      | Inr ts \<Rightarrow> (v1TenantsResponse ts (parsePagination c), w))"
  using assms by (auto simp: tenantList_def Let_def)

subsection \<open>Events go with success\<close>

text \<open>
  Whatever the request and the collaborators: a mutation that submits an event returns
  its success response, and the two reads submit nothing.
\<close>

lemma tenantCreate_event_only_with_success:
  "published (snd (tenantCreate r c w)) = published w
   \<or> (\<exists>t. fst (tenantCreate r c w) = v1TenantCreatedResponse t)"
  by (simp add: tenantCreate_def Let_def PublishCreate_def publish_def
        split: prod.splits sum.splits option.splits)

lemma tenantUpdate_event_only_with_success:
  "published (snd (tenantUpdate r c w)) = published w
   \<or> (\<exists>t. fst (tenantUpdate r c w) = v1TenantGetResponse t)"
  by (simp add: tenantUpdate_def Let_def PublishUpdate_def publish_def
        split: prod.splits sum.splits option.splits)

lemma tenantDelete_event_only_with_success:
  "published (snd (tenantDelete r c w)) = published w
   \<or> fst (tenantDelete r c w) = ReturnNil"
  by (simp add: tenantDelete_def Let_def PublishDelete_def publish_def
        split: prod.splits sum.splits option.splits)

lemma reads_publish_nothing:
  "published (snd (tenantList r c w)) = published w"
  "published (snd (tenantGet r c w)) = published w"
  by (simp_all add: tenantList_def tenantGet_def Let_def
        split: prod.splits sum.splits option.splits)

subsection \<open>The outcome of the persistence operation decides\<close>

text \<open>
  C1. For every create, update and delete request that reaches its persistence
  operation (\<open>Insert\<close>, \<open>Update\<close>, \<open>Delete\<close>): if the operation fails, nothing is
  submitted to the event publisher and the response is not the success response; if it
  succeeds, the handler returns the success response whatever the message constructor
  and the publisher return, the event is submitted once, and a failure of either is
  only written to the log.
\<close>

theorem persistence_failure_no_event_success_despite_event_failure:
  "(create_valid r c tenantID req \<longrightarrow>
      (\<forall>e t' db'. Insert r (inserted_Tenant tenantID req) (db w) = (Some e, t', db')
         \<longrightarrow> published (snd (tenantCreate r c w)) = published w
           \<and> fst (tenantCreate r c w) = v1InternalServerErrorResponse e)
    \<and> (\<forall>t' db' m err.
          Insert r (inserted_Tenant tenantID req) (db w) = (None, t', db')
          \<and> NewTenantMessage r (Actor c) (NewTenantURN (ID t')) (create_URNs tenantID) = (m, err)
         \<longrightarrow> fst (tenantCreate r c w) = v1TenantCreatedResponse t'
           \<and> published (snd (tenantCreate r c w)) = published w @ [submission Created m]
           \<and> logged (snd (tenantCreate r c w))
               = logged w @ event_log ''failed to create tenant message''
                              ''failed to publish tenant message'' err
                              (Publish r (submission Created m))))
   \<and> (update_valid r c tenantID payload
        \<and> One r [TenantWhere_ID_EQ tenantID] (db w) = Inr t \<longrightarrow>
      (\<forall>e t' db'. Update r (updated_Tenant payload t) (db w) = (Some e, t', db')
         \<longrightarrow> published (snd (tenantUpdate r c w)) = published w
           \<and> fst (tenantUpdate r c w) = v1InternalServerErrorResponse e)
    \<and> (\<forall>t' db' m err.
          Update r (updated_Tenant payload t) (db w) = (None, t', db')
          \<and> UpdateTenantMessage r (Actor c) (NewTenantURN (ID t')) = (m, err)
         \<longrightarrow> fst (tenantUpdate r c w) = v1TenantGetResponse t'
           \<and> published (snd (tenantUpdate r c w)) = published w @ [submission Updated m]
           \<and> logged (snd (tenantUpdate r c w))
               = logged w @ event_log ''failed to create, update tenant message''
                              ''failed to publish, update tenant message'' err
                              (Publish r (submission Updated m))))
   \<and> (parseUUID c = (tenantID, None)
        \<and> One r [TenantWhere_ID_EQ tenantID] (db w) = Inr t \<longrightarrow>
      (\<forall>e t' db'. Delete r t False (db w) = (Some e, t', db')
         \<longrightarrow> published (snd (tenantDelete r c w)) = published w
           \<and> fst (tenantDelete r c w) = ReturnErr e)
    \<and> (\<forall>t' db' m err.
          Delete r t False (db w) = (None, t', db')
          \<and> DeleteTenantMessage r (Actor c) (NewTenantURN (ID t')) = (m, err)
         \<longrightarrow> fst (tenantDelete r c w) = ReturnNil
           \<and> published (snd (tenantDelete r c w)) = published w @ [submission Deleted m]
           \<and> logged (snd (tenantDelete r c w))
               = logged w @ event_log ''failed to create, delete tenant message''
                              ''failed to publish, delete tenant message'' err
                              (Publish r (submission Deleted m))))"
proof (intro conjI impI allI)
  fix e t' db'
  assume "create_valid r c tenantID req"
    and "Insert r (inserted_Tenant tenantID req) (db w) = (Some e, t', db')"
  from tenantCreate_Insert_fails[OF this]
  show "published (snd (tenantCreate r c w)) = published w"
    and "fst (tenantCreate r c w) = v1InternalServerErrorResponse e"
    by simp_all
next
  fix t' db' m err
  assume v: "create_valid r c tenantID req"
    and ok: "Insert r (inserted_Tenant tenantID req) (db w) = (None, t', db')
             \<and> NewTenantMessage r (Actor c) (NewTenantURN (ID t')) (create_URNs tenantID) = (m, err)"
  note facts = tenantCreate_Insert_ok[OF v conjunct1[OF ok] conjunct2[OF ok]]
  show "fst (tenantCreate r c w) = v1TenantCreatedResponse t'" by (rule facts(1))
  show "published (snd (tenantCreate r c w)) = published w @ [submission Created m]"
    by (rule facts(3))
  show "logged (snd (tenantCreate r c w))
          = logged w @ event_log ''failed to create tenant message''
                         ''failed to publish tenant message'' err
                         (Publish r (submission Created m))"
    by (rule facts(4))
next
  fix e t' db'
  assume v: "update_valid r c tenantID payload \<and> One r [TenantWhere_ID_EQ tenantID] (db w) = Inr t"
    and f: "Update r (updated_Tenant payload t) (db w) = (Some e, t', db')"
  from tenantUpdate_Update_fails[OF conjunct1[OF v] conjunct2[OF v] f]
  show "published (snd (tenantUpdate r c w)) = published w"
    and "fst (tenantUpdate r c w) = v1InternalServerErrorResponse e"
    by simp_all
next
  fix t' db' m err
  assume v: "update_valid r c tenantID payload \<and> One r [TenantWhere_ID_EQ tenantID] (db w) = Inr t"
    and ok: "Update r (updated_Tenant payload t) (db w) = (None, t', db')
             \<and> UpdateTenantMessage r (Actor c) (NewTenantURN (ID t')) = (m, err)"
  note facts = tenantUpdate_Update_ok[OF conjunct1[OF v] conjunct2[OF v]
                  conjunct1[OF ok] conjunct2[OF ok]]
  show "fst (tenantUpdate r c w) = v1TenantGetResponse t'" by (rule facts(1))
  show "published (snd (tenantUpdate r c w)) = published w @ [submission Updated m]"
    by (rule facts(3))
  show "logged (snd (tenantUpdate r c w))
          = logged w @ event_log ''failed to create, update tenant message''
                         ''failed to publish, update tenant message'' err
                         (Publish r (submission Updated m))"
    by (rule facts(4))
next
  fix e t' db'
  assume v: "parseUUID c = (tenantID, None) \<and> One r [TenantWhere_ID_EQ tenantID] (db w) = Inr t"
    and f: "Delete r t False (db w) = (Some e, t', db')"
  from tenantDelete_Delete_fails[OF conjunct1[OF v] conjunct2[OF v] f]
  show "published (snd (tenantDelete r c w)) = published w"
    and "fst (tenantDelete r c w) = ReturnErr e"
    by simp_all
next
  fix t' db' m err
  assume v: "parseUUID c = (tenantID, None) \<and> One r [TenantWhere_ID_EQ tenantID] (db w) = Inr t"
    and ok: "Delete r t False (db w) = (None, t', db')
             \<and> DeleteTenantMessage r (Actor c) (NewTenantURN (ID t')) = (m, err)"
  note facts = tenantDelete_Delete_ok[OF conjunct1[OF v] conjunct2[OF v]
                  conjunct1[OF ok] conjunct2[OF ok]]
  show "fst (tenantDelete r c w) = ReturnNil" by (rule facts(1))
  show "published (snd (tenantDelete r c w)) = published w @ [submission Deleted m]"
    by (rule facts(3))
  show "logged (snd (tenantDelete r c w))
          = logged w @ event_log ''failed to create, delete tenant message''
                         ''failed to publish, delete tenant message'' err
                         (Publish r (submission Deleted m))"
    by (rule facts(4))
qed

theorem persistence_failure_no_event_success_despite_event_failure_witness:
  "create_valid (silent_bus plain_Router) plain_Context ''''
      \<lparr>createTenantRequest_Name = ''acme-north''\<rparr>
   \<and> fst (tenantCreate (silent_bus plain_Router) plain_Context acme_World)
       = v1TenantCreatedResponse
           \<lparr> ID = ''t_new'', Name = ''acme-north'', Description = None,
             ParentTenantID = None, CreatedAt = 50, UpdatedAt = 50, DeletedAt = None \<rparr>
   \<and> published (snd (tenantCreate (silent_bus plain_Router) plain_Context acme_World))
       = [submission Created None]
   \<and> logged (snd (tenantCreate (silent_bus plain_Router) plain_Context acme_World))
       = [(''failed to create tenant message'', ErrOther ''no message''),
          (''failed to publish tenant message'', ErrOther ''bus down'')]
   \<and> create_valid (broken_store plain_Router) plain_Context ''''
      \<lparr>createTenantRequest_Name = ''acme-north''\<rparr>
   \<and> fst (tenantCreate (broken_store plain_Router) plain_Context acme_World)
       = v1InternalServerErrorResponse (ErrOther ''connection lost'')
   \<and> published (snd (tenantCreate (broken_store plain_Router) plain_Context acme_World)) = []"
proof -
  let ?req = "\<lparr>createTenantRequest_Name = ''acme-north''\<rparr>"
  have v1: "create_valid (silent_bus plain_Router) plain_Context '''' ?req"
    by (simp add: create_valid_def silent_bus_def plain_Router_def bare_Router_def with_repository_def
          plain_Context_def)
  have v2: "create_valid (broken_store plain_Router) plain_Context '''' ?req"
    by (simp add: create_valid_def broken_store_def plain_Router_def bare_Router_def with_repository_def
          plain_Context_def)
  have i1: "Insert (silent_bus plain_Router) (inserted_Tenant '''' ?req) (db acme_World)
            = (None, \<lparr> ID = ''t_new'', Name = ''acme-north'', Description = None,
                 ParentTenantID = None, CreatedAt = 50, UpdatedAt = 50, DeletedAt = None \<rparr>,
               acme_table @ [\<lparr> ID = ''t_new'', Name = ''acme-north'', Description = None,
                 ParentTenantID = None, CreatedAt = 50, UpdatedAt = 50, DeletedAt = None \<rparr>])
          \<and> NewTenantMessage (silent_bus plain_Router) (Actor plain_Context)
               (NewTenantURN ''t_new'') (create_URNs '''') = (None, Some (ErrOther ''no message''))"
    by (simp add: silent_bus_def plain_Router_def bare_Router_def with_repository_def repository_Insert_def
          inserted_Tenant_def new_Tenant_def acme_World_def Let_def)
  have i2: "Insert (broken_store plain_Router) (inserted_Tenant '''' ?req) (db acme_World)
            = (Some (ErrOther ''connection lost''), inserted_Tenant '''' ?req, db acme_World)"
    by (simp add: broken_store_def plain_Router_def bare_Router_def with_repository_def)
  have p: "Publish (silent_bus plain_Router) (submission Created None) = Some (ErrOther ''bus down'')"
    by (simp add: silent_bus_def)
  note c1 = persistence_failure_no_event_success_despite_event_failure
              [of "silent_bus plain_Router" plain_Context "''''" ?req acme_World]
  note c2 = persistence_failure_no_event_success_despite_event_failure
              [of "broken_store plain_Router" plain_Context "''''" ?req acme_World]
  from c1 v1 i1 p
  have s: "fst (tenantCreate (silent_bus plain_Router) plain_Context acme_World)
       = v1TenantCreatedResponse
           \<lparr> ID = ''t_new'', Name = ''acme-north'', Description = None,
             ParentTenantID = None, CreatedAt = 50, UpdatedAt = 50, DeletedAt = None \<rparr>
     \<and> published (snd (tenantCreate (silent_bus plain_Router) plain_Context acme_World))
       = [submission Created None]
     \<and> logged (snd (tenantCreate (silent_bus plain_Router) plain_Context acme_World))
       = [(''failed to create tenant message'', ErrOther ''no message''),
          (''failed to publish tenant message'', ErrOther ''bus down'')]"
    by (simp add: event_log_def acme_World_def)
  from c2 v2 i2
  have f: "fst (tenantCreate (broken_store plain_Router) plain_Context acme_World)
             = v1InternalServerErrorResponse (ErrOther ''connection lost'')
     \<and> published (snd (tenantCreate (broken_store plain_Router) plain_Context acme_World)) = []"
    by (simp add: acme_World_def)
  from v1 v2 s f show ?thesis by blast
qed

section \<open>Unexpected persistence failures\<close>

text \<open>
  C7. For every operation and every router, a failure of the persistence layer other
  than "no rows" is written to the log with the error and answered with the generic
  500 response, whose body carries no text of the error: the insert of create, the
  query of list, the lookups of get, update and delete, and the update of update end
  with \<open>v1InternalServerErrorResponse\<close>; the delete of delete ends with a plain
  \<open>return err\<close>, which the default error handler of the framework answers with its
  generic 500.
\<close>

theorem persistence_failure_logged_and_generic_500:
  "(create_valid r c tenantID req
      \<and> Insert r (inserted_Tenant tenantID req) (db w) = (Some e, t', db')
     \<longrightarrow> fst (tenantCreate r c w) = v1InternalServerErrorResponse e
       \<and> generic_500 (fst (tenantCreate r c w))
       \<and> status_code (fst (tenantCreate r c w)) = Some 500
       \<and> logged (snd (tenantCreate r c w)) = logged w @ [(''error inserting tenant'', e)])
   \<and> (parseUUID c = (tenantID, err) \<and> (err = None \<or> err = Some ErrUUIDNotFound)
      \<and> All r ((if err = None then TenantWhere_ParentTenantID_EQ (Some tenantID)
                 else TenantWhere_ParentTenantID_IsNull) # queryMods r (parsePagination c))
           (db w) = Inl e
     \<longrightarrow> fst (tenantList r c w) = v1InternalServerErrorResponse e
       \<and> generic_500 (fst (tenantList r c w))
       \<and> status_code (fst (tenantList r c w)) = Some 500
       \<and> logged (snd (tenantList r c w)) = logged w @ [(''failed to query tenants'', e)])
   \<and> (parseUUID c = (tenantID, None)
      \<and> One r [TenantWhere_ID_EQ tenantID] (db w) = Inl e \<and> e \<noteq> ErrNoRows
     \<longrightarrow> fst (tenantGet r c w) = v1InternalServerErrorResponse e
       \<and> generic_500 (fst (tenantGet r c w))
       \<and> status_code (fst (tenantGet r c w)) = Some 500
       \<and> logged (snd (tenantGet r c w)) = logged w @ [(''failed to query tenants'', e)]
       \<and> fst (tenantDelete r c w) = v1InternalServerErrorResponse e
       \<and> generic_500 (fst (tenantDelete r c w))
       \<and> status_code (fst (tenantDelete r c w)) = Some 500
       \<and> logged (snd (tenantDelete r c w)) = logged w @ [(''failed to query tenants'', e)])
   \<and> (update_valid r c tenantID payload
      \<and> One r [TenantWhere_ID_EQ tenantID] (db w) = Inl e \<and> e \<noteq> ErrNoRows
     \<longrightarrow> fst (tenantUpdate r c w) = v1InternalServerErrorResponse e
       \<and> generic_500 (fst (tenantUpdate r c w))
       \<and> status_code (fst (tenantUpdate r c w)) = Some 500
       \<and> logged (snd (tenantUpdate r c w)) = logged w @ [(''failed to query tenants'', e)])
   \<and> (update_valid r c tenantID payload
      \<and> One r [TenantWhere_ID_EQ tenantID] (db w) = Inr t
      \<and> Update r (updated_Tenant payload t) (db w) = (Some e, t', db')
     \<longrightarrow> fst (tenantUpdate r c w) = v1InternalServerErrorResponse e
       \<and> generic_500 (fst (tenantUpdate r c w))
       \<and> status_code (fst (tenantUpdate r c w)) = Some 500
       \<and> logged (snd (tenantUpdate r c w)) = logged w @ [(''failed to update tenant'', e)])
   \<and> (parseUUID c = (tenantID, None)
      \<and> One r [TenantWhere_ID_EQ tenantID] (db w) = Inr t
      \<and> Delete r t False (db w) = (Some e, t', db')
     \<longrightarrow> fst (tenantDelete r c w) = ReturnErr e
       \<and> generic_500 (fst (tenantDelete r c w))
       \<and> status_code (fst (tenantDelete r c w)) = Some 500
       \<and> logged (snd (tenantDelete r c w)) = logged w @ [(''failed to delete tenant'', e)])"
proof (intro conjI impI)
  assume a: "create_valid r c tenantID req
      \<and> Insert r (inserted_Tenant tenantID req) (db w) = (Some e, t', db')"
  note eq = tenantCreate_Insert_fails[OF conjunct1[OF a] conjunct2[OF a]]
  show "fst (tenantCreate r c w) = v1InternalServerErrorResponse e"
    and "generic_500 (fst (tenantCreate r c w))"
    and "status_code (fst (tenantCreate r c w)) = Some 500"
    and "logged (snd (tenantCreate r c w)) = logged w @ [(''error inserting tenant'', e)]"
    by (simp_all add: eq logError_def)
next
  assume a: "parseUUID c = (tenantID, err) \<and> (err = None \<or> err = Some ErrUUIDNotFound)
      \<and> All r ((if err = None then TenantWhere_ParentTenantID_EQ (Some tenantID)
                 else TenantWhere_ParentTenantID_IsNull) # queryMods r (parsePagination c))
           (db w) = Inl e"
  then have p: "parseUUID c = (tenantID, err)" and q: "err = None \<or> err = Some ErrUUIDNotFound"
    by blast+
  have eq: "tenantList r c w
              = (v1InternalServerErrorResponse e, logError ''failed to query tenants'' e w)"
    using a tenantList_All[OF p q, of r w] by simp
  show "fst (tenantList r c w) = v1InternalServerErrorResponse e"
    and "generic_500 (fst (tenantList r c w))"
    and "status_code (fst (tenantList r c w)) = Some 500"
    and "logged (snd (tenantList r c w)) = logged w @ [(''failed to query tenants'', e)]"
    by (simp_all add: eq)
next
  assume a: "parseUUID c = (tenantID, None)
      \<and> One r [TenantWhere_ID_EQ tenantID] (db w) = Inl e \<and> e \<noteq> ErrNoRows"
  then have p: "parseUUID c = (tenantID, None)" by blast
  have eq: "tenantGet r c w
              = (v1InternalServerErrorResponse e, logError ''failed to query tenants'' e w)"
    using a tenantGet_One[OF p, of r w] by simp
  show "fst (tenantGet r c w) = v1InternalServerErrorResponse e"
    and "generic_500 (fst (tenantGet r c w))"
    and "status_code (fst (tenantGet r c w)) = Some 500"
    and "logged (snd (tenantGet r c w)) = logged w @ [(''failed to query tenants'', e)]"
    by (simp_all add: eq)
  have eq': "tenantDelete r c w
              = (v1InternalServerErrorResponse e, logError ''failed to query tenants'' e w)"
    using a tenantDelete_One_fails[OF p, of r w e] by simp
  show "fst (tenantDelete r c w) = v1InternalServerErrorResponse e"
    and "generic_500 (fst (tenantDelete r c w))"
    and "status_code (fst (tenantDelete r c w)) = Some 500"
    and "logged (snd (tenantDelete r c w)) = logged w @ [(''failed to query tenants'', e)]"
    by (simp_all add: eq')
next
  assume a: "update_valid r c tenantID payload
      \<and> One r [TenantWhere_ID_EQ tenantID] (db w) = Inl e \<and> e \<noteq> ErrNoRows"
  then have p: "update_valid r c tenantID payload" by blast
  have eq: "tenantUpdate r c w
              = (v1InternalServerErrorResponse e, logError ''failed to query tenants'' e w)"
    using a tenantUpdate_One_fails[OF p, of w e] by simp
  show "fst (tenantUpdate r c w) = v1InternalServerErrorResponse e"
    and "generic_500 (fst (tenantUpdate r c w))"
    and "status_code (fst (tenantUpdate r c w)) = Some 500"
    and "logged (snd (tenantUpdate r c w)) = logged w @ [(''failed to query tenants'', e)]"
    by (simp_all add: eq)
next
  assume a: "update_valid r c tenantID payload
      \<and> One r [TenantWhere_ID_EQ tenantID] (db w) = Inr t
      \<and> Update r (updated_Tenant payload t) (db w) = (Some e, t', db')"
  then have p: "update_valid r c tenantID payload"
    and q: "One r [TenantWhere_ID_EQ tenantID] (db w) = Inr t"
    and u: "Update r (updated_Tenant payload t) (db w) = (Some e, t', db')"
    by blast+
  note eq = tenantUpdate_Update_fails[OF p q u]
  show "fst (tenantUpdate r c w) = v1InternalServerErrorResponse e"
    and "generic_500 (fst (tenantUpdate r c w))"
    and "status_code (fst (tenantUpdate r c w)) = Some 500"
    and "logged (snd (tenantUpdate r c w)) = logged w @ [(''failed to update tenant'', e)]"
    by (simp_all add: eq logError_def)
next
  assume a: "parseUUID c = (tenantID, None)
      \<and> One r [TenantWhere_ID_EQ tenantID] (db w) = Inr t
      \<and> Delete r t False (db w) = (Some e, t', db')"
  then have p: "parseUUID c = (tenantID, None)"
    and q: "One r [TenantWhere_ID_EQ tenantID] (db w) = Inr t"
    and d: "Delete r t False (db w) = (Some e, t', db')"
    by blast+
  note eq = tenantDelete_Delete_fails[OF p q d]
  show "fst (tenantDelete r c w) = ReturnErr e"
    and "generic_500 (fst (tenantDelete r c w))"
    and "status_code (fst (tenantDelete r c w)) = Some 500"
    and "logged (snd (tenantDelete r c w)) = logged w @ [(''failed to delete tenant'', e)]"
    by (simp_all add: eq logError_def)
qed

text \<open>
  In the deployment with a store whose mutations fail: the delete of the existing
  tenant \<open>t_abc\<close> is logged and returned as it is, which the caller sees as the generic
  500; the insert of a root tenant is logged and answered with
  \<open>v1InternalServerErrorResponse\<close>.
\<close>

theorem persistence_failure_logged_and_generic_500_witness:
  "parseUUID (plain_Context\<lparr>parseUUID := (''t_abc'', None)\<rparr>) = (''t_abc'', None)
   \<and> One (broken_store plain_Router) [TenantWhere_ID_EQ ''t_abc''] (db acme_World) = Inr acme
   \<and> Delete (broken_store plain_Router) acme False (db acme_World)
       = (Some (ErrOther ''connection lost''), acme, db acme_World)
   \<and> fst (tenantDelete (broken_store plain_Router)
            (plain_Context\<lparr>parseUUID := (''t_abc'', None)\<rparr>) acme_World)
       = ReturnErr (ErrOther ''connection lost'')
   \<and> status_code (fst (tenantDelete (broken_store plain_Router)
            (plain_Context\<lparr>parseUUID := (''t_abc'', None)\<rparr>) acme_World)) = Some 500
   \<and> logged (snd (tenantDelete (broken_store plain_Router)
            (plain_Context\<lparr>parseUUID := (''t_abc'', None)\<rparr>) acme_World))
       = [(''failed to delete tenant'', ErrOther ''connection lost'')]
   \<and> create_valid (broken_store plain_Router) plain_Context ''''
        \<lparr>createTenantRequest_Name = ''acme-north''\<rparr>
   \<and> fst (tenantCreate (broken_store plain_Router) plain_Context acme_World)
       = v1InternalServerErrorResponse (ErrOther ''connection lost'')
   \<and> status_code (fst (tenantCreate (broken_store plain_Router) plain_Context acme_World))
       = Some 500
   \<and> logged (snd (tenantCreate (broken_store plain_Router) plain_Context acme_World))
       = [(''error inserting tenant'', ErrOther ''connection lost'')]"
proof -
  let ?r = "broken_store plain_Router"
  let ?c = "plain_Context\<lparr>parseUUID := (''t_abc'', None)\<rparr>"
  let ?req = "\<lparr>createTenantRequest_Name = ''acme-north''\<rparr>"
  let ?e = "ErrOther ''connection lost''"
  have p: "parseUUID ?c = (''t_abc'', None)"
    by simp
  have one: "One ?r [TenantWhere_ID_EQ ''t_abc''] (db acme_World) = Inr acme"
    by (simp add: broken_store_def plain_Router_def bare_Router_def with_repository_def
          repository_One_def repository_find_def matching_def page_def acme_World_def
          acme_table_def acme_def acme_east_def acme_west_def)
  have del: "Delete ?r acme False (db acme_World) = (Some ?e, acme, db acme_World)"
    by (simp add: broken_store_def)
  have v: "create_valid ?r plain_Context '''' ?req"
    by (simp add: create_valid_def broken_store_def plain_Router_def bare_Router_def
          with_repository_def plain_Context_def)
  have ins: "Insert ?r (inserted_Tenant '''' ?req) (db acme_World)
               = (Some ?e, inserted_Tenant '''' ?req, db acme_World)"
    by (simp add: broken_store_def)
  have empty_log: "logged acme_World = []"
    by (simp add: acme_World_def)
  note deleted = persistence_failure_logged_and_generic_500
                   [of ?r ?c "''t_abc''" _ acme_World ?e acme "db acme_World" _ _ acme,
                    THEN conjunct2, THEN conjunct2, THEN conjunct2, THEN conjunct2,
                    THEN conjunct2, THEN mp, OF conjI[OF p conjI[OF one del]]]
  note created = persistence_failure_logged_and_generic_500
                   [of ?r plain_Context "''''" ?req acme_World ?e
                       "inserted_Tenant '''' ?req" "db acme_World",
                    THEN conjunct1, THEN mp, OF conjI[OF v ins]]
  from deleted created p one del v show ?thesis
    by (simp add: empty_log)
qed

section \<open>Create: the parent link\<close>

text \<open>
  C2. For every valid create request whose insert succeeds and leaves the parent
  reference as the handler set it, with messages built by \<open>newMessage\<close>: the struct
  handed to \<open>Insert\<close> and the created tenant of the response have
  \<open>ParentTenantID = Some tenantID\<close> and the one submitted creation event carries the
  single additional URN of the parent when a parent id was supplied in the path
  (\<open>parseUUID\<close> returned a non-empty \<open>tenantID\<close>); they have no parent and the event
  carries no additional URN when none was supplied (\<open>tenantID\<close> is empty).
\<close>

theorem tenantCreate_parent_link:
  assumes "create_valid r c tenantID req"
    and "Insert r (inserted_Tenant tenantID req) (db w) = (None, t', db')"
    and "ParentTenantID t' = ParentTenantID (inserted_Tenant tenantID req)"
    and "NewTenantMessage r = newMessage"
  shows "fst (tenantCreate r c w) = v1TenantCreatedResponse t'
     \<and> (tenantID \<noteq> '''' \<longrightarrow>
          ParentTenantID (inserted_Tenant tenantID req) = Some tenantID
        \<and> ParentTenantID t' = Some tenantID
        \<and> published (snd (tenantCreate r c w))
            = published w @ [submission Created
                (Some \<lparr>actor = Actor c, resourceURN = NewTenantURN (ID t'),
                       additionalURNs = [NewTenantURN tenantID]\<rparr>)])
     \<and> (tenantID = '''' \<longrightarrow>
          ParentTenantID (inserted_Tenant tenantID req) = None
        \<and> ParentTenantID t' = None
        \<and> published (snd (tenantCreate r c w))
            = published w @ [submission Created
                (Some \<lparr>actor = Actor c, resourceURN = NewTenantURN (ID t'),
                       additionalURNs = []\<rparr>)])"
proof -
  have m: "NewTenantMessage r (Actor c) (NewTenantURN (ID t')) (create_URNs tenantID)
             = (Some \<lparr>actor = Actor c, resourceURN = NewTenantURN (ID t'),
                      additionalURNs = create_URNs tenantID\<rparr>, None)"
    using assms(4) by (simp add: newMessage_def)
  note facts = tenantCreate_Insert_ok[OF assms(1) assms(2) m]
  have parent: "ParentTenantID (inserted_Tenant tenantID req)
                  = (if tenantID \<noteq> '''' then Some tenantID else None)"
    by (simp add: inserted_Tenant_def new_Tenant_def)
  show ?thesis
  proof (intro conjI impI)
    show "fst (tenantCreate r c w) = v1TenantCreatedResponse t'"
      by (rule facts(1))
  next
    assume ne: "tenantID \<noteq> ''''"
    show "ParentTenantID (inserted_Tenant tenantID req) = Some tenantID"
      using parent ne by simp
    then show "ParentTenantID t' = Some tenantID"
      using assms(3) by simp
    show "published (snd (tenantCreate r c w))
            = published w @ [submission Created
                (Some \<lparr>actor = Actor c, resourceURN = NewTenantURN (ID t'),
                       additionalURNs = [NewTenantURN tenantID]\<rparr>)]"
      using facts(3) ne by (simp add: create_URNs_def)
  next
    assume e: "tenantID = ''''"
    show "ParentTenantID (inserted_Tenant tenantID req) = None"
      using parent e by simp
    then show "ParentTenantID t' = None"
      using assms(3) by simp
    show "published (snd (tenantCreate r c w))
            = published w @ [submission Created
                (Some \<lparr>actor = Actor c, resourceURN = NewTenantURN (ID t'),
                       additionalURNs = []\<rparr>)]"
      using facts(3) e by (simp add: create_URNs_def)
  qed
qed

text \<open>The insert of the repository leaves the parent reference as it was given.\<close>

lemma repository_Insert_ok_parent:
  "repository_Insert newid now t rows = (None, t', rows') \<Longrightarrow>
     ParentTenantID t' = ParentTenantID t \<and> Name t' = Name t \<and> ID t' = newid
     \<and> rows' = rows @ [t']"
  by (auto simp: repository_Insert_def Let_def split: option.splits if_splits)

theorem tenantCreate_parent_link_witness:
  "create_valid plain_Router (plain_Context\<lparr>parseUUID := (''t_abc'', None)\<rparr>) ''t_abc''
      \<lparr>createTenantRequest_Name = ''acme-north''\<rparr>
   \<and> fst (tenantCreate plain_Router (plain_Context\<lparr>parseUUID := (''t_abc'', None)\<rparr>) acme_World)
       = v1TenantCreatedResponse
           \<lparr> ID = ''t_new'', Name = ''acme-north'', Description = None,
             ParentTenantID = Some ''t_abc'', CreatedAt = 50, UpdatedAt = 50,
             DeletedAt = None \<rparr>
   \<and> published (snd (tenantCreate plain_Router
                        (plain_Context\<lparr>parseUUID := (''t_abc'', None)\<rparr>) acme_World))
       = [submission Created
            (Some \<lparr>actor = ''urn:infratographer:user:alice'',
                   resourceURN = ''urn:infratographer:tenant:t_new'',
                   additionalURNs = [''urn:infratographer:tenant:t_abc'']\<rparr>)]
   \<and> create_valid plain_Router plain_Context '''' \<lparr>createTenantRequest_Name = ''acme-north''\<rparr>
   \<and> fst (tenantCreate plain_Router plain_Context acme_World)
       = v1TenantCreatedResponse
           \<lparr> ID = ''t_new'', Name = ''acme-north'', Description = None,
             ParentTenantID = None, CreatedAt = 50, UpdatedAt = 50, DeletedAt = None \<rparr>
   \<and> published (snd (tenantCreate plain_Router plain_Context acme_World))
       = [submission Created
            (Some \<lparr>actor = ''urn:infratographer:user:alice'',
                   resourceURN = ''urn:infratographer:tenant:t_new'',
                   additionalURNs = []\<rparr>)]"
proof -
  let ?req = "\<lparr>createTenantRequest_Name = ''acme-north''\<rparr>"
  let ?c = "plain_Context\<lparr>parseUUID := (''t_abc'', None)\<rparr>"
  let ?child = "\<lparr> ID = ''t_new'', Name = ''acme-north'', Description = None,
             ParentTenantID = Some ''t_abc'', CreatedAt = 50, UpdatedAt = 50,
             DeletedAt = None \<rparr>"
  let ?root = "\<lparr> ID = ''t_new'', Name = ''acme-north'', Description = None,
             ParentTenantID = None, CreatedAt = 50, UpdatedAt = 50, DeletedAt = None \<rparr>"
  have v1: "create_valid plain_Router ?c ''t_abc'' ?req"
    by (simp add: create_valid_def plain_Router_def bare_Router_def with_repository_def plain_Context_def)
  have v2: "create_valid plain_Router plain_Context '''' ?req"
    by (simp add: create_valid_def plain_Router_def bare_Router_def with_repository_def plain_Context_def)
  have i1: "Insert plain_Router (inserted_Tenant ''t_abc'' ?req) (db acme_World)
              = (None, ?child, acme_table @ [?child])"
    by (simp add: plain_Router_def bare_Router_def with_repository_def repository_Insert_def
          inserted_Tenant_def new_Tenant_def acme_World_def acme_table_def acme_def
          acme_east_def acme_west_def Let_def)
  have i2: "Insert plain_Router (inserted_Tenant '''' ?req) (db acme_World)
              = (None, ?root, acme_table @ [?root])"
    by (simp add: plain_Router_def bare_Router_def with_repository_def repository_Insert_def
          inserted_Tenant_def new_Tenant_def acme_World_def Let_def)
  have p1: "ParentTenantID ?child = ParentTenantID (inserted_Tenant ''t_abc'' ?req)"
    by (simp add: inserted_Tenant_def new_Tenant_def)
  have p2: "ParentTenantID ?root = ParentTenantID (inserted_Tenant '''' ?req)"
    by (simp add: inserted_Tenant_def new_Tenant_def)
  have n: "NewTenantMessage plain_Router = newMessage"
    by (simp add: plain_Router_def bare_Router_def with_repository_def)
  have a: "Actor ?c = ''urn:infratographer:user:alice''"
    "Actor plain_Context = ''urn:infratographer:user:alice''"
    by (simp_all add: plain_Context_def)
  from tenantCreate_parent_link[OF v1 i1 p1 n] a
  have r1: "fst (tenantCreate plain_Router ?c acme_World) = v1TenantCreatedResponse ?child
     \<and> published (snd (tenantCreate plain_Router ?c acme_World))
       = [submission Created
            (Some \<lparr>actor = ''urn:infratographer:user:alice'',
                   resourceURN = ''urn:infratographer:tenant:t_new'',
                   additionalURNs = [''urn:infratographer:tenant:t_abc'']\<rparr>)]"
    by (simp add: NewTenantURN_def acme_World_def)
  from tenantCreate_parent_link[OF v2 i2 p2 n] a
  have r2: "fst (tenantCreate plain_Router plain_Context acme_World)
              = v1TenantCreatedResponse ?root
     \<and> published (snd (tenantCreate plain_Router plain_Context acme_World))
       = [submission Created
            (Some \<lparr>actor = ''urn:infratographer:user:alice'',
                   resourceURN = ''urn:infratographer:tenant:t_new'',
                   additionalURNs = []\<rparr>)]"
    by (simp add: NewTenantURN_def acme_World_def)
  from v1 v2 r1 r2 show ?thesis by blast
qed

section \<open>Create under a parent that does not exist\<close>

lemma repository_Insert_missing_parent:
  "P \<noteq> '''' \<Longrightarrow> P \<notin> set (map ID rows) \<Longrightarrow>
     repository_Insert newid now (inserted_Tenant P req) rows
       = (Some ErrConstraintViolation, inserted_Tenant P req, rows)"
  by (simp add: repository_Insert_def inserted_Tenant_def new_Tenant_def)

text \<open>
  C3, as the code has it. A create request naming a parent id \<open>P\<close> that no row has
  makes the insert of the repository fail with ConstraintViolation and persist
  nothing; and whenever the insert fails with an error \<open>e\<close> and persists nothing,
  \<open>tenantCreate\<close> logs it and answers with \<open>v1InternalServerErrorResponse e\<close>, status 500
  (not 400 or 409: the handler does not look at the kind of error), leaves the table
  as it was and submits no event.
\<close>

theorem tenantCreate_missing_parent_is_500:
  "(P \<noteq> '''' \<and> P \<notin> set (map ID rows) \<longrightarrow>
      repository_Insert newid now (inserted_Tenant P req) rows
        = (Some ErrConstraintViolation, inserted_Tenant P req, rows))
   \<and> (create_valid r c P req
       \<and> Insert r (inserted_Tenant P req) (db w) = (Some e, t', db w) \<longrightarrow>
        tenantCreate r c w
          = (v1InternalServerErrorResponse e, logError ''error inserting tenant'' e w)
      \<and> status_code (fst (tenantCreate r c w)) = Some 500
      \<and> db (snd (tenantCreate r c w)) = db w
      \<and> published (snd (tenantCreate r c w)) = published w)"
proof (intro conjI impI)
  assume "P \<noteq> '''' \<and> P \<notin> set (map ID rows)"
  then show "repository_Insert newid now (inserted_Tenant P req) rows
        = (Some ErrConstraintViolation, inserted_Tenant P req, rows)"
    by (simp add: repository_Insert_missing_parent)
next
  assume a: "create_valid r c P req
       \<and> Insert r (inserted_Tenant P req) (db w) = (Some e, t', db w)"
  have "tenantCreate r c w
          = (v1InternalServerErrorResponse e,
             logError ''error inserting tenant'' e (w\<lparr>db := db w\<rparr>))"
    by (rule tenantCreate_Insert_fails[OF conjunct1[OF a] conjunct2[OF a]])
  then show eq: "tenantCreate r c w
          = (v1InternalServerErrorResponse e, logError ''error inserting tenant'' e w)"
    by simp
  show "status_code (fst (tenantCreate r c w)) = Some 500"
    and "db (snd (tenantCreate r c w)) = db w"
    and "published (snd (tenantCreate r c w)) = published w"
    by (simp_all add: eq)
qed

theorem tenantCreate_missing_parent_is_500_witness:
  "create_valid plain_Router (plain_Context\<lparr>parseUUID := (''t_gone'', None)\<rparr>) ''t_gone''
      \<lparr>createTenantRequest_Name = ''acme-north''\<rparr>
   \<and> ''t_gone'' \<notin> set (map ID acme_table)
   \<and> tenantCreate plain_Router (plain_Context\<lparr>parseUUID := (''t_gone'', None)\<rparr>) acme_World
       = (v1InternalServerErrorResponse ErrConstraintViolation,
          acme_World\<lparr>logged := [(''error inserting tenant'', ErrConstraintViolation)]\<rparr>)"
proof -
  let ?req = "\<lparr>createTenantRequest_Name = ''acme-north''\<rparr>"
  let ?c = "plain_Context\<lparr>parseUUID := (''t_gone'', None)\<rparr>"
  have v: "create_valid plain_Router ?c ''t_gone'' ?req"
    by (simp add: create_valid_def plain_Router_def bare_Router_def with_repository_def plain_Context_def)
  have absent: "''t_gone'' \<noteq> '''' \<and> ''t_gone'' \<notin> set (map ID acme_table)"
    by (simp add: acme_table_def acme_def acme_east_def acme_west_def)
  note inst = tenantCreate_missing_parent_is_500
                [of "''t_gone''" acme_table "''t_new''" 50 ?req plain_Router ?c acme_World
                    ErrConstraintViolation "inserted_Tenant ''t_gone'' ?req"]
  have ins: "Insert plain_Router (inserted_Tenant ''t_gone'' ?req) (db acme_World)
               = (Some ErrConstraintViolation, inserted_Tenant ''t_gone'' ?req, db acme_World)"
    using inst absent by (simp add: plain_Router_def bare_Router_def with_repository_def acme_World_def)
  from inst v ins
  have "tenantCreate plain_Router ?c acme_World
          = (v1InternalServerErrorResponse ErrConstraintViolation,
             logError ''error inserting tenant'' ErrConstraintViolation acme_World)"
    by blast
  then have "tenantCreate plain_Router ?c acme_World
       = (v1InternalServerErrorResponse ErrConstraintViolation,
          acme_World\<lparr>logged := [(''error inserting tenant'', ErrConstraintViolation)]\<rparr>)"
    by (simp add: logError_def acme_World_def)
  with v absent show ?thesis by blast
qed

text \<open>
  The claim as stated fails: in the deployment, creating a tenant under the unknown
  parent \<open>t_gone\<close> is answered with status 500, neither 400 nor 409.
\<close>

theorem tenantCreate_missing_parent_not_400_409:
  "fst (tenantCreate plain_Router (plain_Context\<lparr>parseUUID := (''t_gone'', None)\<rparr>) acme_World)
     = v1InternalServerErrorResponse ErrConstraintViolation
   \<and> status_code (fst (tenantCreate plain_Router
                          (plain_Context\<lparr>parseUUID := (''t_gone'', None)\<rparr>) acme_World))
       = Some 500
   \<and> status_code (fst (tenantCreate plain_Router
                          (plain_Context\<lparr>parseUUID := (''t_gone'', None)\<rparr>) acme_World))
       \<noteq> Some 400
   \<and> status_code (fst (tenantCreate plain_Router
                          (plain_Context\<lparr>parseUUID := (''t_gone'', None)\<rparr>) acme_World))
       \<noteq> Some 409"
proof -
  have "tenantCreate plain_Router (plain_Context\<lparr>parseUUID := (''t_gone'', None)\<rparr>) acme_World
       = (v1InternalServerErrorResponse ErrConstraintViolation,
          acme_World\<lparr>logged := [(''error inserting tenant'', ErrConstraintViolation)]\<rparr>)"
    by (simp add: tenantCreate_def plain_Context_def plain_Router_def bare_Router_def with_repository_def
          repository_Insert_def new_Tenant_def acme_World_def acme_table_def acme_def
          acme_east_def acme_west_def logError_def Let_def)
  then show ?thesis by simp
qed

section \<open>Queries of the repository\<close>

lemma set_page_subset: "set (page mods ts) \<subseteq> set ts"
proof -
  have "set (take n (drop k ts)) \<subseteq> set ts" for n k
    by (meson set_drop_subset set_take_subset subset_trans)
  moreover have "set (take n ts) \<subseteq> set ts" for n
    by (rule set_take_subset)
  moreover have "set (drop k ts) \<subseteq> set ts" for k
    by (rule set_drop_subset)
  ultimately show ?thesis
    by (simp add: page_def Let_def split: option.splits)
qed

lemma set_repository_find_subset:
  "set (repository_find mods rows) \<subseteq> set (matching mods rows)"
  using set_page_subset[of mods "sort_key CreatedAt (matching mods rows)"]
  by (simp add: repository_find_def)

lemma matching_iff:
  "t \<in> set (matching mods rows)
     \<longleftrightarrow> t \<in> set rows \<and> DeletedAt t = None \<and> (\<forall>m \<in> set mods. where_holds m t)"
  by (auto simp: matching_def list_all_iff)


text \<open>The lookup by id: the first live row with that id, in the stable order.\<close>

lemma id_query:
  "repository_find [TenantWhere_ID_EQ i] rows
     = sort_key CreatedAt (filter (\<lambda>t. DeletedAt t = None \<and> ID t = i) rows)"
  by (simp add: repository_find_def page_def matching_def)

lemma repository_One_none:
  assumes "\<forall>row \<in> set rows. ID row = i \<longrightarrow> DeletedAt row \<noteq> None"
  shows "repository_One [TenantWhere_ID_EQ i] rows = Inl ErrNoRows"
proof -
  have "filter (\<lambda>t. DeletedAt t = None \<and> ID t = i) rows = []"
    using assms by (auto simp: filter_empty_conv)
  then show ?thesis
    by (simp add: repository_One_def id_query)
qed

lemma repository_One_some:
  assumes "row \<in> set rows" and "ID row = i" and "DeletedAt row = None"
  shows "\<exists>t. repository_One [TenantWhere_ID_EQ i] rows = Inr t
            \<and> t \<in> set rows \<and> ID t = i \<and> DeletedAt t = None"
proof -
  let ?live = "filter (\<lambda>t. DeletedAt t = None \<and> ID t = i) rows"
  have "row \<in> set (sort_key CreatedAt ?live)"
    using assms by simp
  then obtain t ts where cons: "sort_key CreatedAt ?live = t # ts"
    by (cases "sort_key CreatedAt ?live") auto
  then have "t \<in> set (sort_key CreatedAt ?live)"
    by simp
  then have "t \<in> set rows \<and> ID t = i \<and> DeletedAt t = None"
    by simp
  moreover have "repository_One [TenantWhere_ID_EQ i] rows = Inr t"
    using cons by (simp add: repository_One_def id_query)
  ultimately show ?thesis by blast
qed



lemma with_repository_fields [simp]:
  "queryMods (with_repository newid now r) = pagination_queryMods"
  "Insert (with_repository newid now r) = repository_Insert newid now"
  "One (with_repository newid now r) = repository_One"
  "All (with_repository newid now r) = repository_All"
  "Update (with_repository newid now r) = repository_Update now"
  "Delete (with_repository newid now r) = repository_Delete now"
  "NewTenantMessage (with_repository newid now r) = newMessage"
  "UpdateTenantMessage (with_repository newid now r) = (\<lambda>a u. newMessage a u [])"
  "DeleteTenantMessage (with_repository newid now r) = (\<lambda>a u. newMessage a u [])"
  "validate_create (with_repository newid now r) = validate_create r"
  "validate_update (with_repository newid now r) = validate_update r"
  "Publish (with_repository newid now r) = Publish r"
  by (simp_all add: with_repository_def)

section \<open>Listing\<close>







section \<open>Update\<close>


lemma ID_updated_Tenant [simp]: "ID (updated_Tenant payload t) = ID t"
  by (simp add: updated_Tenant_def split: option.splits)




section \<open>Delete\<close>

lemma repository_Delete_live:
  assumes "row \<in> set rows" and "ID row = ID t" and "DeletedAt row = None"
  shows "repository_Delete now t False rows
           = (None, t\<lparr>DeletedAt := Some now\<rparr>,
              map (\<lambda>row. if ID row = ID t \<and> DeletedAt row = None
                          then row\<lparr>DeletedAt := Some now\<rparr> else row) rows)"
proof -
  have "list_ex (\<lambda>row. ID row = ID t \<and> DeletedAt row = None) rows"
    using assms by (auto simp: list_ex_iff)
  then show ?thesis
    by (simp add: repository_Delete_def)
qed

lemma marked_rows_deleted:
  assumes "row \<in> set (map (\<lambda>row. if ID row = tid \<and> DeletedAt row = None
                              then row\<lparr>DeletedAt := Some now\<rparr> else row) rows)"
    and "ID row = tid"
  shows "DeletedAt row \<noteq> None"
proof -
  let ?mark = "\<lambda>row. if ID row = tid \<and> DeletedAt row = None
                     then row\<lparr>DeletedAt := Some now\<rparr> else row"
  from assms(1) obtain row0 where row0: "row = ?mark row0"
    unfolding set_map by (rule imageE)
  show ?thesis
  proof (cases "ID row0 = tid \<and> DeletedAt row0 = None")
    case True
    with row0 have "row = row0\<lparr>DeletedAt := Some now\<rparr>" by simp
    then show ?thesis by simp
  next
    case False
    with row0 have same: "row = row0" by simp
    with assms(2) False show ?thesis by simp
  qed
qed

text \<open>
  C6. A delete request for the id of a live tenant \<open>T\<close> succeeds, marks the live rows
  of that id as deleted at the clock reading \<open>now\<close> and removes no row: \<open>T\<close> is still
  in the table, with \<open>deleted_at\<close> set. Afterwards, whatever the later router of the
  repository, a get by that id is answered with the not-found response (404) and so
  is a second delete. A delete request for an id that no row has, or that only
  soft-deleted rows have, is answered with the not-found response and changes nothing.
\<close>

theorem tenantDelete_soft_deletes_then_not_found:
  "(parseUUID c = (tid, None) \<and> T \<in> set (db w) \<and> ID T = tid \<and> DeletedAt T = None \<longrightarrow>
      fst (tenantDelete (with_repository newid now r) c w) = ReturnNil
    \<and> db (snd (tenantDelete (with_repository newid now r) c w))
        = map (\<lambda>row. if ID row = tid \<and> DeletedAt row = None
                       then row\<lparr>DeletedAt := Some now\<rparr> else row) (db w)
    \<and> T\<lparr>DeletedAt := Some now\<rparr> \<in> set (db (snd (tenantDelete (with_repository newid now r) c w)))
    \<and> map ID (db (snd (tenantDelete (with_repository newid now r) c w))) = map ID (db w)
    \<and> tenantGet (with_repository newid' now' r') c
         (snd (tenantDelete (with_repository newid now r) c w))
        = (v1TenantNotFoundResponse ErrNoRows,
           snd (tenantDelete (with_repository newid now r) c w))
    \<and> status_code (fst (tenantGet (with_repository newid' now' r') c
                           (snd (tenantDelete (with_repository newid now r) c w))))
        = Some 404
    \<and> tenantDelete (with_repository newid' now' r') c
         (snd (tenantDelete (with_repository newid now r) c w))
        = (v1TenantNotFoundResponse ErrNoRows,
           snd (tenantDelete (with_repository newid now r) c w)))
   \<and> (parseUUID c = (tid, None)
       \<and> (\<forall>row \<in> set (db w). ID row = tid \<longrightarrow> DeletedAt row \<noteq> None) \<longrightarrow>
      tenantDelete (with_repository newid now r) c w = (v1TenantNotFoundResponse ErrNoRows, w)
    \<and> status_code (fst (tenantDelete (with_repository newid now r) c w)) = Some 404)"
proof (rule conjI; rule impI)
  let ?r = "with_repository newid now r"
  let ?r' = "with_repository newid' now' r'"
  let ?mark = "\<lambda>row. if ID row = tid \<and> DeletedAt row = None
                       then row\<lparr>DeletedAt := Some now\<rparr> else row"
  assume a: "parseUUID c = (tid, None) \<and> T \<in> set (db w) \<and> ID T = tid \<and> DeletedAt T = None"
  then have p: "parseUUID c = (tid, None)" and T: "T \<in> set (db w)" "ID T = tid"
    "DeletedAt T = None"
    by blast+
  obtain t where t: "repository_One [TenantWhere_ID_EQ tid] (db w) = Inr t" "ID t = tid"
    using repository_One_some[OF T] by blast
  have one: "One ?r [TenantWhere_ID_EQ tid] (db w) = Inr t"
    using t(1) by simp
  have del: "Delete ?r t False (db w)
               = (None, t\<lparr>DeletedAt := Some now\<rparr>, map ?mark (db w))"
    using repository_Delete_live[of T "db w" t now] T t(2) by simp
  obtain m err where me:
    "DeleteTenantMessage ?r (Actor c) (NewTenantURN (ID (t\<lparr>DeletedAt := Some now\<rparr>))) = (m, err)"
    by (cases "DeleteTenantMessage ?r (Actor c)
                 (NewTenantURN (ID (t\<lparr>DeletedAt := Some now\<rparr>)))") blast
  note facts = tenantDelete_Delete_ok[OF p one del me]
  let ?w' = "snd (tenantDelete ?r c w)"
  show "fst (tenantDelete ?r c w) = ReturnNil
    \<and> db ?w' = map ?mark (db w)
    \<and> T\<lparr>DeletedAt := Some now\<rparr> \<in> set (db ?w')
    \<and> map ID (db ?w') = map ID (db w)
    \<and> tenantGet ?r' c ?w' = (v1TenantNotFoundResponse ErrNoRows, ?w')
    \<and> status_code (fst (tenantGet ?r' c ?w')) = Some 404
    \<and> tenantDelete ?r' c ?w' = (v1TenantNotFoundResponse ErrNoRows, ?w')"
  proof (intro conjI)
    show "fst (tenantDelete ?r c w) = ReturnNil" by (rule facts(1))
    show rows: "db ?w' = map ?mark (db w)" by (rule facts(2))
    have "?mark T \<in> set (map ?mark (db w))"
      using T(1) by (rule imageI[of T "set (db w)" ?mark, folded set_map])
    then show "T\<lparr>DeletedAt := Some now\<rparr> \<in> set (db ?w')"
      using T(2,3) rows by simp
    show "map ID (db ?w') = map ID (db w)"
      by (simp add: rows comp_def)
    have gone: "\<forall>row \<in> set (db ?w'). ID row = tid \<longrightarrow> DeletedAt row \<noteq> None"
      unfolding rows by (blast dest: marked_rows_deleted)
    have none: "One ?r' [TenantWhere_ID_EQ tid] (db ?w') = Inl ErrNoRows"
      using repository_One_none[OF gone] by simp
    show get: "tenantGet ?r' c ?w' = (v1TenantNotFoundResponse ErrNoRows, ?w')"
      using tenantGet_One[OF p, of ?r' ?w'] none by simp
    show "status_code (fst (tenantGet ?r' c ?w')) = Some 404"
      by (simp add: get)
    show "tenantDelete ?r' c ?w' = (v1TenantNotFoundResponse ErrNoRows, ?w')"
      using tenantDelete_One_fails[OF p none] by simp
  qed
next
  let ?r = "with_repository newid now r"
  assume a: "parseUUID c = (tid, None)
       \<and> (\<forall>row \<in> set (db w). ID row = tid \<longrightarrow> DeletedAt row \<noteq> None)"
  then have p: "parseUUID c = (tid, None)"
    and gone: "\<forall>row \<in> set (db w). ID row = tid \<longrightarrow> DeletedAt row \<noteq> None"
    by blast+
  have none: "One ?r [TenantWhere_ID_EQ tid] (db w) = Inl ErrNoRows"
    using repository_One_none[OF gone] by simp
  have eq: "tenantDelete ?r c w = (v1TenantNotFoundResponse ErrNoRows, w)"
    using tenantDelete_One_fails[OF p none] by simp
  then show "tenantDelete ?r c w = (v1TenantNotFoundResponse ErrNoRows, w)
    \<and> status_code (fst (tenantDelete ?r c w)) = Some 404"
    by simp
qed

theorem tenantDelete_soft_deletes_then_not_found_witness:
  "parseUUID (plain_Context\<lparr>parseUUID := (''t_abc'', None)\<rparr>) = (''t_abc'', None)
   \<and> acme \<in> set (db acme_World) \<and> ID acme = ''t_abc'' \<and> DeletedAt acme = None
   \<and> fst (tenantDelete plain_Router (plain_Context\<lparr>parseUUID := (''t_abc'', None)\<rparr>) acme_World)
       = ReturnNil
   \<and> db (snd (tenantDelete plain_Router
                 (plain_Context\<lparr>parseUUID := (''t_abc'', None)\<rparr>) acme_World))
       = [acme\<lparr>DeletedAt := Some 50\<rparr>, acme_east, acme_west]
   \<and> fst (tenantGet plain_Router (plain_Context\<lparr>parseUUID := (''t_abc'', None)\<rparr>)
            (snd (tenantDelete plain_Router
                    (plain_Context\<lparr>parseUUID := (''t_abc'', None)\<rparr>) acme_World)))
       = v1TenantNotFoundResponse ErrNoRows
   \<and> parseUUID (plain_Context\<lparr>parseUUID := (''t_west'', None)\<rparr>) = (''t_west'', None)
   \<and> tenantDelete plain_Router (plain_Context\<lparr>parseUUID := (''t_west'', None)\<rparr>) acme_World
       = (v1TenantNotFoundResponse ErrNoRows, acme_World)"
proof -
  let ?c = "plain_Context\<lparr>parseUUID := (''t_abc'', None)\<rparr>"
  let ?cw = "plain_Context\<lparr>parseUUID := (''t_west'', None)\<rparr>"
  have pre: "parseUUID ?c = (''t_abc'', None) \<and> acme \<in> set (db acme_World)
             \<and> ID acme = ''t_abc'' \<and> DeletedAt acme = None"
    by (simp add: acme_World_def acme_table_def acme_def)
  have pre_w: "parseUUID ?cw = (''t_west'', None)
       \<and> (\<forall>row \<in> set (db acme_World). ID row = ''t_west'' \<longrightarrow> DeletedAt row \<noteq> None)"
    by (simp add: acme_World_def acme_table_def acme_def acme_east_def acme_west_def)
  have marked: "map (\<lambda>row. if ID row = ''t_abc'' \<and> DeletedAt row = None
                            then row\<lparr>DeletedAt := Some 50\<rparr> else row) (db acme_World)
                  = [acme\<lparr>DeletedAt := Some 50\<rparr>, acme_east, acme_west]"
    by (simp add: acme_World_def acme_table_def acme_def acme_east_def acme_west_def)
  note del = tenantDelete_soft_deletes_then_not_found
               [of ?c "''t_abc''" acme acme_World "''t_new''" 50 bare_Router
                   "''t_new''" 50 bare_Router, folded plain_Router_def,
                THEN conjunct1, THEN mp, OF pre]
  note del_w = tenantDelete_soft_deletes_then_not_found
               [of ?cw "''t_west''" acme acme_World "''t_new''" 50 bare_Router
                   "''t_new''" 50 bare_Router, folded plain_Router_def,
                THEN conjunct2, THEN mp, OF pre_w]
  have "fst (tenantDelete plain_Router ?c acme_World) = ReturnNil"
    using del by (rule conjunct1)
  moreover have "db (snd (tenantDelete plain_Router ?c acme_World))
          = [acme\<lparr>DeletedAt := Some 50\<rparr>, acme_east, acme_west]"
    using del[THEN conjunct2, THEN conjunct1] marked by (rule trans)
  moreover have "fst (tenantGet plain_Router ?c (snd (tenantDelete plain_Router ?c acme_World)))
          = v1TenantNotFoundResponse ErrNoRows"
    using del[THEN conjunct2, THEN conjunct2, THEN conjunct2, THEN conjunct2, THEN conjunct1]
    by (rule arg_cong[of _ _ fst, THEN trans]) simp
  moreover have "tenantDelete plain_Router ?cw acme_World
          = (v1TenantNotFoundResponse ErrNoRows, acme_World)"
    using del_w by (rule conjunct1)
  ultimately show ?thesis
    using pre conjunct1[OF pre_w] by simp
qed

section \<open>The combinators of the predicate builder\<close>

lemma fresh_clone [simp]: "Selector_SetP (Selector_Clone s) NilP = new_Selector"
  by (simp add: Selector_SetP_def Selector_Clone_def new_Selector_def)

text \<open>
  The member predicates only ever run on the fresh clone; the given selector receives
  one \<open>Where\<close> call with what the clone collected.
\<close>

lemma And_Where:
  "And ps = (\<lambda>s. Selector_Where s (Selector_P (fold (\<lambda>p s1. p s1) ps new_Selector)))"
  by (simp add: And_def Let_def)

lemma Or_Where:
  "Or ps = (\<lambda>s. Selector_Where s (Selector_P (Or_loop 0 ps new_Selector)))"
  by (simp add: Or_def Let_def)

lemma And_is_adds: "And ps = adds False (Selector_P (fold (\<lambda>p s1. p s1) ps new_Selector))"
  by (simp add: And_Where adds_def)

lemma Or_is_adds: "Or ps = adds False (Selector_P (Or_loop 0 ps new_Selector))"
  by (simp add: Or_Where adds_def)

lemma Not_adds: "Not_predicate (adds b x) = adds True x"
  by (rule ext) (simp add: Not_predicate_def adds_def Selector_Not_def)

text \<open>
  Every predicate of the package acts as one \<open>Where\<close> call, after \<open>Not\<close> or not. The
  condition is the nil pointer for a group that collected nothing.
\<close>

lemma tenant_predicate_adds:
  "tenant_predicate p \<Longrightarrow> \<exists>b x. p = adds b x"
proof (induction rule: tenant_predicate.induct)
  case (one_condition x)
  have "(\<lambda>s. Selector_Where s x) = adds False x"
    by (simp add: adds_def)
  then show ?case by blast
next
  case (conj ps)
  show ?case
    using And_is_adds by blast
next
  case (disj ps)
  show ?case
    using Or_is_adds by blast
next
  case (neg p)
  then obtain b x where "p = adds b x"
    by blast
  then show ?case
    using Not_adds by blast
qed

lemma adds_new_Selector:
  "adds b x new_Selector = \<lparr>sel_where = condition b x, sel_or = False, sel_not = False\<rparr>"
  by (simp add: adds_def condition_def Selector_Where_def Selector_Not_def new_Selector_def)

lemma contribution_adds: "contribution (adds b x) = condition b x"
  by (simp add: contribution_def adds_new_Selector)

lemma condition_False [simp]: "condition False w = w"
  by (simp add: condition_def)

text \<open>
  A group of two: the second condition is joined to the first, unless the first
  member left none; a nil condition of the second member is joined like any other.
\<close>

lemma And_pair:
  "And [adds b1 x, adds b2 y]
     = adds False (if condition b1 x = NilP then condition b2 y
                   else AndP (condition b1 x) (condition b2 y))"
proof -
  have "Selector_P (adds b2 y (adds b1 x new_Selector))
          = (if condition b1 x = NilP then condition b2 y
             else AndP (condition b1 x) (condition b2 y))"
    by (simp add: adds_new_Selector Selector_P_def)
       (simp add: adds_def condition_def Selector_Where_def Selector_Not_def)
  then show ?thesis
    by (simp add: And_is_adds)
qed

lemma Or_pair:
  "Or [adds b1 x, adds b2 y]
     = adds False (if condition b1 x = NilP then condition b2 y
                   else OrP (condition b1 x) (condition b2 y))"
proof -
  have "Selector_P (adds b2 y (Selector_Or (adds b1 x new_Selector)))
          = (if condition b1 x = NilP then condition b2 y
             else OrP (condition b1 x) (condition b2 y))"
    by (simp add: adds_new_Selector Selector_P_def Selector_Or_def)
       (simp add: adds_def condition_def Selector_Where_def Selector_Not_def)
  then show ?thesis
    by (simp add: Or_is_adds Let_def)
qed

lemma sql_and_assoc: "sql_and a (sql_and b c) = sql_and (sql_and a b) c"
  by (cases a; cases b; cases c) simp_all

lemma sql_or_assoc: "sql_or a (sql_or b c) = sql_or (sql_or a b) c"
  by (cases a; cases b; cases c) simp_all

lemma holds_AndP_assoc: "holds (AndP a (AndP b c)) t = holds (AndP (AndP a b) c) t"
  by (cases "holds a t"; cases "holds b t"; cases "holds c t") (simp_all add: sql_and_assoc)

lemma holds_OrP_assoc: "holds (OrP a (OrP b c)) t = holds (OrP (OrP a b) c) t"
  by (cases "holds a t"; cases "holds b t"; cases "holds c t") (simp_all add: sql_or_assoc)

lemma the_panic: "(e :: panic) = NilPointerDereference"
  by (cases e) simp

text \<open>A condition that holds a nil pointer cannot be rendered.\<close>

lemma holds_AndP_nil: "holds (AndP a NilP) t = Inl NilPointerDereference"
  by (cases "holds a t") (simp_all add: the_panic)

lemma holds_OrP_nil: "holds (OrP a NilP) t = Inl NilPointerDereference"
  by (cases "holds a t") (simp_all add: the_panic)

lemma holds_AndP_panics:
  "holds a t = Inl NilPointerDereference \<Longrightarrow> holds (AndP a b) t = Inl NilPointerDereference"
  by simp

lemma holds_OrP_panics:
  "holds a t = Inl NilPointerDereference \<Longrightarrow> holds (OrP a b) t = Inl NilPointerDereference"
  by simp

text \<open>Two non-nil conditions that denote the same are interchangeable in \<open>Where\<close>.\<close>

lemma selects_Where_cong:
  assumes "holds a t = holds b t" and "a \<noteq> NilP" and "b \<noteq> NilP"
  shows "selects (Selector_Where s a) t = selects (Selector_Where s b) t"
proof -
  have neg: "holds (NotP a) t = holds (NotP b) t"
    using assms(1) by simp
  show ?thesis
    using assms neg
    by (cases "holds (sel_where s) t")
       (simp_all add: selects_def Selector_Where_def Let_def del: holds.simps(5))
qed

text \<open>A condition that cannot be rendered spoils the query it is added to.\<close>

lemma selects_Where_panics:
  assumes "holds a t = Inl NilPointerDereference" and "a \<noteq> NilP"
  shows "selects (Selector_Where s a) t = Inl NilPointerDereference"
proof -
  have neg: "holds (NotP a) t = Inl NilPointerDereference"
    using assms(1) by simp
  show ?thesis
    using assms neg
    by (cases "holds (sel_where s) t")
       (simp_all add: selects_def Selector_Where_def Let_def the_panic del: holds.simps(5))
qed

subsection \<open>Predicate values in the store\<close>

lemma meanings_snoc: "meanings (h @ [c]) = meanings h @ [run (meanings h) c]"
  by (simp add: meanings_def)

lemma length_meanings [simp]: "length (meanings h) = length h"
  by (induction h rule: rev_induct) (simp_all add: meanings_snoc, simp add: meanings_def)

lemma look_meanings: "look (meanings h) = call_value h"
  by (rule ext) (simp add: call_value_def)

text \<open>Allocation leaves every closure of the store, and what it does, as it was.\<close>

lemma new_closure_keeps:
  "fst (new_closure c h) = length h"
  "length (snd (new_closure c h)) = Suc (length h)"
  "b < length h \<Longrightarrow> snd (new_closure c h) ! b = h ! b"
  "b < length h \<Longrightarrow> call_value (snd (new_closure c h)) b = call_value h b"
  "call_value (snd (new_closure c h)) (fst (new_closure c h)) = run (meanings h) c"
  by (simp_all add: new_closure_def call_value_def look_def meanings_snoc nth_append)

text \<open>
  C8, as the code has it. The predicates of the package are the field and edge
  predicates and what \<open>And\<close>, \<open>Or\<close> and \<open>Not\<close> build from predicates of the package. For
  such \<open>p\<close>, \<open>q\<close>, \<open>r\<close>, on every selector and every row:

  \<^item> \<open>And(p, And(q, r))\<close> and \<open>And(And(p, q), r)\<close> select the same, and so do
    \<open>Or(p, Or(q, r))\<close> and \<open>Or(Or(p, q), r)\<close>, unless \<open>q\<close> contributes no condition, as
    the empty group \<open>And()\<close> does, while \<open>p\<close> and \<open>r\<close> both contribute one;

  \<^item> when \<open>q\<close> contributes no condition and \<open>p\<close> contributes one, the query of
    \<open>And(And(p, q), r)\<close> cannot be built, since the inner group joins the condition of
    \<open>p\<close> with a nil pointer, while \<open>And(p, And(q, r))\<close> selects as \<open>And(p, r)\<close>; likewise
    for \<open>Or\<close>;

  \<^item> \<open>And\<close>, \<open>Or\<close> and \<open>Not\<close> return a predicate value that no earlier reference holds,
    they leave every closure of the store as it was, so that every predicate value,
    the given ones among them, does after the call what it did before; and calling
    the new value is \<open>And\<close>, \<open>Or\<close>, \<open>Not\<close> of what the given values do.
\<close>

theorem And_Or_associative_new_values:
  assumes "tenant_predicate p" and "tenant_predicate q" and "tenant_predicate r"
  shows "((contribution q = NilP \<longrightarrow> contribution p = NilP \<or> contribution r = NilP)
          \<longrightarrow> selects (And [p, And [q, r]] s) t = selects (And [And [p, q], r] s) t
            \<and> selects (Or [p, Or [q, r]] s) t = selects (Or [Or [p, q], r] s) t)
       \<and> (contribution q = NilP \<and> contribution p \<noteq> NilP
          \<longrightarrow> selects (And [And [p, q], r] s) t = Inl NilPointerDereference
            \<and> selects (And [p, And [q, r]] s) t = selects (And [p, r] s) t
            \<and> selects (Or [Or [p, q], r] s) t = Inl NilPointerDereference
            \<and> selects (Or [p, Or [q, r]] s) t = selects (Or [p, r] s) t)
       \<and> (fst (And_value ps h) = length h \<and> fst (Or_value ps h) = length h
            \<and> fst (Not_value a h) = length h)
       \<and> (\<forall>b < length h. snd (And_value ps h) ! b = h ! b
                        \<and> snd (Or_value ps h) ! b = h ! b
                        \<and> snd (Not_value a h) ! b = h ! b
                        \<and> call_value (snd (And_value ps h)) b = call_value h b
                        \<and> call_value (snd (Or_value ps h)) b = call_value h b
                        \<and> call_value (snd (Not_value a h)) b = call_value h b)
       \<and> call_value (snd (And_value ps h)) (fst (And_value ps h))
           = map_option And (those (map (call_value h) ps))
       \<and> call_value (snd (Or_value ps h)) (fst (Or_value ps h))
           = map_option Or (those (map (call_value h) ps))
       \<and> call_value (snd (Not_value a h)) (fst (Not_value a h))
           = map_option Not_predicate (call_value h a)"
proof -
  obtain b1 x where p: "p = adds b1 x"
    using tenant_predicate_adds[OF assms(1)] by blast
  obtain b2 y where q: "q = adds b2 y"
    using tenant_predicate_adds[OF assms(2)] by blast
  obtain b3 z where r: "r = adds b3 z"
    using tenant_predicate_adds[OF assms(3)] by blast
  let ?x = "condition b1 x" and ?y = "condition b2 y" and ?z = "condition b3 z"
  have cp: "contribution p = ?x" and cq: "contribution q = ?y" and cr: "contribution r = ?z"
    by (simp_all add: p q r contribution_adds)
  have and_right: "And [p, And [q, r]]
      = adds False (if ?x = NilP then (if ?y = NilP then ?z else AndP ?y ?z)
                    else AndP ?x (if ?y = NilP then ?z else AndP ?y ?z))"
    unfolding p q r And_pair[of b2 y b3 z] by (simp add: And_pair)
  have and_left: "And [And [p, q], r]
      = adds False (if (if ?x = NilP then ?y else AndP ?x ?y) = NilP then ?z
                    else AndP (if ?x = NilP then ?y else AndP ?x ?y) ?z)"
    unfolding p q r And_pair[of b1 x b2 y] by (simp add: And_pair)
  have and_pr: "And [p, r] = adds False (if ?x = NilP then ?z else AndP ?x ?z)"
    unfolding p r by (rule And_pair)
  have or_right: "Or [p, Or [q, r]]
      = adds False (if ?x = NilP then (if ?y = NilP then ?z else OrP ?y ?z)
                    else OrP ?x (if ?y = NilP then ?z else OrP ?y ?z))"
    unfolding p q r Or_pair[of b2 y b3 z] by (simp add: Or_pair)
  have or_left: "Or [Or [p, q], r]
      = adds False (if (if ?x = NilP then ?y else OrP ?x ?y) = NilP then ?z
                    else OrP (if ?x = NilP then ?y else OrP ?x ?y) ?z)"
    unfolding p q r Or_pair[of b1 x b2 y] by (simp add: Or_pair)
  have or_pr: "Or [p, r] = adds False (if ?x = NilP then ?z else OrP ?x ?z)"
    unfolding p r by (rule Or_pair)
  have law: "selects (And [p, And [q, r]] s) t = selects (And [And [p, q], r] s) t
            \<and> selects (Or [p, Or [q, r]] s) t = selects (Or [Or [p, q], r] s) t"
    if ok: "contribution q = NilP \<longrightarrow> contribution p = NilP \<or> contribution r = NilP"
  proof (cases "?x = NilP")
    case True
    then show ?thesis
      by (simp add: and_right and_left or_right or_left)
  next
    case first: False
    show ?thesis
    proof (cases "?y = NilP")
      case True
      then have last: "?z = NilP"
        using ok first by (simp add: cp cq cr)
      have both_and: "holds (AndP ?x NilP) t = holds (AndP (AndP ?x NilP) NilP) t"
        by (simp only: holds_AndP_nil)
      have both_or: "holds (OrP ?x NilP) t = holds (OrP (OrP ?x NilP) NilP) t"
        by (simp only: holds_OrP_nil)
      have "selects (Selector_Where s (AndP ?x NilP)) t
              = selects (Selector_Where s (AndP (AndP ?x NilP) NilP)) t"
        by (rule selects_Where_cong[OF both_and]) simp_all
      moreover have "selects (Selector_Where s (OrP ?x NilP)) t
              = selects (Selector_Where s (OrP (OrP ?x NilP) NilP)) t"
        by (rule selects_Where_cong[OF both_or]) simp_all
      ultimately show ?thesis
        using first True last by (simp add: and_right and_left or_right or_left adds_def)
    next
      case False
      have "selects (Selector_Where s (AndP ?x (AndP ?y ?z))) t
              = selects (Selector_Where s (AndP (AndP ?x ?y) ?z)) t"
        by (rule selects_Where_cong[OF holds_AndP_assoc]) simp_all
      moreover have "selects (Selector_Where s (OrP ?x (OrP ?y ?z))) t
              = selects (Selector_Where s (OrP (OrP ?x ?y) ?z)) t"
        by (rule selects_Where_cong[OF holds_OrP_assoc]) simp_all
      ultimately show ?thesis
        using first False by (simp add: and_right and_left or_right or_left adds_def)
    qed
  qed
  have gap: "selects (And [And [p, q], r] s) t = Inl NilPointerDereference
            \<and> selects (And [p, And [q, r]] s) t = selects (And [p, r] s) t
            \<and> selects (Or [Or [p, q], r] s) t = Inl NilPointerDereference
            \<and> selects (Or [p, Or [q, r]] s) t = selects (Or [p, r] s) t"
    if no: "contribution q = NilP \<and> contribution p \<noteq> NilP"
  proof -
    have y: "?y = NilP" and x: "?x \<noteq> NilP"
      using no by (simp_all add: cp cq)
    have "selects (Selector_Where s (AndP (AndP ?x NilP) ?z)) t = Inl NilPointerDereference"
      by (rule selects_Where_panics[OF holds_AndP_panics[OF holds_AndP_nil]]) simp
    moreover have "selects (Selector_Where s (OrP (OrP ?x NilP) ?z)) t
                     = Inl NilPointerDereference"
      by (rule selects_Where_panics[OF holds_OrP_panics[OF holds_OrP_nil]]) simp
    ultimately show ?thesis
      using x y by (simp add: and_right and_left and_pr or_right or_left or_pr adds_def)
  qed
  have fresh: "fst (And_value ps h) = length h \<and> fst (Or_value ps h) = length h
            \<and> fst (Not_value a h) = length h"
    by (simp add: And_value_def Or_value_def Not_value_def new_closure_keeps)
  have kept: "\<forall>b < length h. snd (And_value ps h) ! b = h ! b
                        \<and> snd (Or_value ps h) ! b = h ! b
                        \<and> snd (Not_value a h) ! b = h ! b
                        \<and> call_value (snd (And_value ps h)) b = call_value h b
                        \<and> call_value (snd (Or_value ps h)) b = call_value h b
                        \<and> call_value (snd (Not_value a h)) b = call_value h b"
    by (simp add: And_value_def Or_value_def Not_value_def new_closure_keeps)
  have new_and: "call_value (snd (And_value ps h)) (fst (And_value ps h))
           = map_option And (those (map (call_value h) ps))"
    by (simp only: And_value_def new_closure_keeps(5) run.simps look_meanings)
  have new_or: "call_value (snd (Or_value ps h)) (fst (Or_value ps h))
           = map_option Or (those (map (call_value h) ps))"
    by (simp only: Or_value_def new_closure_keeps(5) run.simps look_meanings)
  have new_not: "call_value (snd (Not_value a h)) (fst (Not_value a h))
           = map_option Not_predicate (call_value h a)"
    by (simp only: Not_value_def new_closure_keeps(5) run.simps look_meanings)
  from law gap fresh kept new_and new_or new_not show ?thesis
    by blast
qed

text \<open>The field predicates and the edge predicates are predicates of the package.\<close>

lemma tenant_predicate_fields:
  "tenant_predicate (sql_FieldEQ fld v)"
  "tenant_predicate (sql_FieldNEQ fld v)"
  "tenant_predicate (sql_FieldIsNull fld)"
  "tenant_predicate (sql_FieldNotNull fld)"
  unfolding sql_FieldEQ_def sql_FieldNEQ_def sql_FieldIsNull_def sql_FieldNotNull_def
  by (rule tenant_predicate.one_condition, simp)+

lemma tenant_predicate_edges:
  assumes "neighbours step \<noteq> NilP"
  shows "tenant_predicate (HasParent step)" and "tenant_predicate (HasChildren step)"
  unfolding HasParent_def HasChildren_def sqlgraph_HasNeighbors_def
  using assms by (rule tenant_predicate.one_condition)+

lemma tenant_predicate_edges_with:
  assumes "\<forall>m. in_matches step m \<noteq> NilP"
  shows "tenant_predicate (HasParentWith step preds)"
    and "tenant_predicate (HasChildrenWith step preds)"
  unfolding HasParentWith_def HasChildrenWith_def sqlgraph_HasNeighborsWith_def Let_def
  using assms by (simp_all add: tenant_predicate.one_condition)

lemma acme_parent_step_allocates:
  "neighbours acme_parent_step \<noteq> NilP" "\<forall>m. in_matches acme_parent_step m \<noteq> NilP"
  by (simp_all add: acme_parent_step_def)

theorem And_Or_associative_new_values_witness:
  "tenant_predicate (NameEQ ''acme'')
   \<and> tenant_predicate (Not_predicate (HasParent acme_parent_step))
   \<and> tenant_predicate (Or [IDEQ ''t_abc'', HasParentWith acme_parent_step [NameEQ ''acme'']])
   \<and> contribution (Not_predicate (HasParent acme_parent_step)) \<noteq> NilP
   \<and> selects (And [NameEQ ''acme'',
                    And [Not_predicate (HasParent acme_parent_step),
                         Or [IDEQ ''t_abc'',
                             HasParentWith acme_parent_step [NameEQ ''acme'']]]]
               new_Selector) acme
       = selects (And [And [NameEQ ''acme'', Not_predicate (HasParent acme_parent_step)],
                       Or [IDEQ ''t_abc'',
                           HasParentWith acme_parent_step [NameEQ ''acme'']]]
                  new_Selector) acme
   \<and> selects (And [NameEQ ''acme'',
                    And [Not_predicate (HasParent acme_parent_step),
                         Or [IDEQ ''t_abc'',
                             HasParentWith acme_parent_step [NameEQ ''acme'']]]]
               new_Selector) acme
       = Inr True
   \<and> tenant_predicate (And [])
   \<and> tenant_predicate ParentTenantIDIsNil
   \<and> contribution (And []) = NilP
   \<and> contribution (NameEQ ''acme'') \<noteq> NilP
   \<and> selects (And [And [NameEQ ''acme'', And []], ParentTenantIDIsNil] new_Selector) acme
       = Inl NilPointerDereference
   \<and> selects (And [NameEQ ''acme'', And [And [], ParentTenantIDIsNil]] new_Selector) acme
       = selects (And [NameEQ ''acme'', ParentTenantIDIsNil] new_Selector) acme
   \<and> fst (And_value [0, 1] acme_predicates) = 2
   \<and> (0::nat) < length acme_predicates
   \<and> call_value (snd (And_value [0, 1] acme_predicates)) 0 = call_value acme_predicates 0
   \<and> call_value (snd (And_value [0, 1] acme_predicates)) 2
       = Some (And [NameEQ ''acme'', ParentTenantIDIsNil])"
proof -
  let ?p = "NameEQ ''acme''"
  let ?q = "Not_predicate (HasParent acme_parent_step)"
  let ?r = "Or [IDEQ ''t_abc'', HasParentWith acme_parent_step [NameEQ ''acme'']]"
  have p: "tenant_predicate ?p"
    unfolding NameEQ_def by (rule tenant_predicate_fields)
  have q: "tenant_predicate ?q"
    by (rule tenant_predicate.neg) (rule tenant_predicate_edges[OF acme_parent_step_allocates(1)])
  have r: "tenant_predicate ?r"
    by (rule tenant_predicate.disj)
       (simp add: IDEQ_def tenant_predicate_fields
          tenant_predicate_edges_with[OF acme_parent_step_allocates(2)])
  have cq: "contribution ?q \<noteq> NilP"
    by (simp add: contribution_def Not_predicate_def HasParent_def sqlgraph_HasNeighbors_def
          acme_parent_step_def Selector_Where_def Selector_Not_def new_Selector_def)
  have assoc: "selects (And [?p, And [?q, ?r]] new_Selector) acme
                 = selects (And [And [?p, ?q], ?r] new_Selector) acme"
    using And_Or_associative_new_values[OF p q r, of new_Selector acme] cq
    by blast
  have at_acme: "selects (And [?p, And [?q, ?r]] new_Selector) acme = Inr True"
    by (simp add: And_def Or_def Not_predicate_def NameEQ_def IDEQ_def
          HasParent_def HasParentWith_def sqlgraph_HasNeighbors_def
          sqlgraph_HasNeighborsWith_def acme_parent_step_def sql_FieldEQ_def
          Selector_Where_def Selector_P_def Selector_SetP_def Selector_Clone_def
          Selector_Or_def Selector_Not_def new_Selector_def selects_def acme_def Let_def)
  have e: "tenant_predicate (And [])"
    by (rule tenant_predicate.conj) simp
  have n: "tenant_predicate ParentTenantIDIsNil"
    unfolding ParentTenantIDIsNil_def by (rule tenant_predicate_fields)
  have ce: "contribution (And []) = NilP"
    by (simp add: contribution_def And_def Selector_Where_def Selector_P_def
          Selector_SetP_def Selector_Clone_def new_Selector_def)
  have cp: "contribution ?p \<noteq> NilP"
    by (simp add: contribution_def NameEQ_def sql_FieldEQ_def Selector_Where_def
          new_Selector_def)
  have gap: "selects (And [And [?p, And []], ParentTenantIDIsNil] new_Selector) acme
               = Inl NilPointerDereference
           \<and> selects (And [?p, And [And [], ParentTenantIDIsNil]] new_Selector) acme
               = selects (And [?p, ParentTenantIDIsNil] new_Selector) acme"
    using And_Or_associative_new_values[OF p e n, of new_Selector acme] ce cp
    by blast
  have len: "(0::nat) < length acme_predicates"
    by (simp add: acme_predicates_def)
  have at0: "call_value acme_predicates 0 = Some ?p"
    and at1: "call_value acme_predicates (Suc 0) = Some ParentTenantIDIsNil"
    by (simp_all add: call_value_def look_def meanings_def acme_predicates_def contribution_def
          NameEQ_def ParentTenantIDIsNil_def sql_FieldEQ_def sql_FieldIsNull_def
          Selector_Where_def new_Selector_def)
  have fresh: "fst (And_value [0, 1] acme_predicates) = 2"
    using And_Or_associative_new_values[OF p q r, of _ _ "[0, 1]" acme_predicates]
    by (simp add: acme_predicates_def)
  have kept: "call_value (snd (And_value [0, 1] acme_predicates)) 0 = call_value acme_predicates 0"
    using And_Or_associative_new_values[OF p q r, of _ _ "[0, 1]" acme_predicates] len
    by blast
  have given: "map_option And (those (map (call_value acme_predicates) [0, 1]))
                 = Some (And [?p, ParentTenantIDIsNil])"
    by (simp add: at0 at1)
  have "call_value (snd (And_value [0, 1] acme_predicates)) (fst (And_value [0, 1] acme_predicates))
          = map_option And (those (map (call_value acme_predicates) [0, 1]))"
    using And_Or_associative_new_values[OF p q r, of _ _ "[0, 1]" acme_predicates]
    by blast
  then have new: "call_value (snd (And_value [0, 1] acme_predicates)) 2
                    = Some (And [?p, ParentTenantIDIsNil])"
    unfolding fresh given .
  from p q r cq assoc at_acme e n ce cp gap[THEN conjunct1] gap[THEN conjunct2]
    fresh len kept new
  show ?thesis
    by (intro conjI)
qed

text \<open>
  The claim as stated fails for a predicate that contributes no condition. With the
  empty group \<open>And()\<close> as \<open>q\<close>: \<open>And(p, And(q, r))\<close> selects the root tenant \<open>acme\<close>, while
  \<open>And(And(p, q), r)\<close> joins the condition of \<open>p\<close> with the nil condition that \<open>And()\<close>
  adds, and the query cannot be built.
\<close>

theorem And_not_associative_with_empty_group:
  "selects (And [NameEQ ''acme'', And [And [], ParentTenantIDIsNil]] new_Selector) acme
     = Inr True
   \<and> selects (And [And [NameEQ ''acme'', And []], ParentTenantIDIsNil] new_Selector) acme
     = Inl NilPointerDereference"
  by (simp add: And_def NameEQ_def ParentTenantIDIsNil_def sql_FieldEQ_def sql_FieldIsNull_def
        Selector_Where_def Selector_P_def Selector_SetP_def Selector_Clone_def
        new_Selector_def selects_def acme_def Let_def)

text \<open>A second \<open>Not\<close> only sets the pending flag again: it does not undo the first.\<close>

lemma Not_Not_is_Not: "Not_predicate (Not_predicate p) = Not_predicate p"
  by (rule ext) (simp add: Not_predicate_def Selector_Not_def)

section \<open>Empty groups\<close>

text \<open>
  C9, as the code has it. \<open>And()\<close> and \<open>Or()\<close> of no predicates are the same function:
  both add the nil condition of the fresh clone to the selector. On a selector without
  a condition and without a pending \<open>not\<close> (that of a query whose only predicate it
  is) either leaves the selector as it is, so that the query has no WHERE clause and
  returns every tenant.
\<close>

theorem empty_And_and_empty_Or_select_everything:
  "And [] = Or []
   \<and> (sel_where s = NilP \<and> \<not> sel_not s \<longrightarrow>
        And [] s = s \<and> Or [] s = s
      \<and> selects (And [] s) t = Inr True \<and> selects (Or [] s) t = Inr True)"
proof (intro conjI impI)
  show same: "And [] = Or []"
    by (simp add: And_def Or_def)
  assume a: "sel_where s = NilP \<and> \<not> sel_not s"
  then show unchanged: "And [] s = s"
    by (simp add: And_def Selector_Where_def Selector_P_def Selector_SetP_def
          Selector_Clone_def)
  then show "Or [] s = s"
    by (simp add: same[symmetric])
  show "selects (And [] s) t = Inr True"
    using a by (simp add: unchanged selects_def)
  then show "selects (Or [] s) t = Inr True"
    by (simp add: same[symmetric])
qed

theorem empty_And_and_empty_Or_select_everything_witness:
  "sel_where new_Selector = NilP \<and> \<not> sel_not new_Selector
   \<and> selects (And [] new_Selector) acme_east = Inr True
   \<and> selects (Or [] new_Selector) acme_east = Inr True"
proof -
  have pre: "sel_where new_Selector = NilP \<and> \<not> sel_not new_Selector"
    by (simp add: new_Selector_def)
  from empty_And_and_empty_Or_select_everything[of new_Selector acme_east] pre
  show ?thesis by blast
qed

text \<open>
  The claim as stated fails: \<open>Or()\<close> of no predicates, as the only predicate of a
  query, does not match no tenant; the query returns \<open>acme\<close>.
\<close>

theorem empty_Or_selects_a_tenant:
  "selects (Or [] new_Selector) acme = Inr True
   \<and> selects (Or [] new_Selector) acme \<noteq> Inr False"
  by (simp add: Or_def Selector_Where_def Selector_P_def Selector_SetP_def
        Selector_Clone_def new_Selector_def selects_def)

end
